theory Spec2Isabelle
  imports Complex_Main
begin

section \<open>Python values shared by the modules\<close>

text \<open>
  An exception is modelled by its class and by the text that \<^verbatim>\<open>str(exc)\<close> gives;
  the \<^verbatim>\<open>HTTPException\<close> of the web framework carries its status code and its detail.
  Only instances of \<^verbatim>\<open>Exception\<close> are modelled: these are what the library calls
  of the application raise and what its \<^verbatim>\<open>except Exception\<close> handlers catch.
\<close>

datatype exc_class =
    AttributeError | ValueError | IndexError | KeyError | TypeError
  | RuntimeError | FileNotFoundError | OSError | ImportError | InvalidId
  | AssertionError | OtherError

datatype exn = Exc exc_class string | HTTPException nat string

fun exc_class_of :: "exn \<Rightarrow> exc_class" where
  "exc_class_of (Exc c m) = c"
| "exc_class_of (HTTPException code detail) = OtherError"

fun string_of_nat :: "nat \<Rightarrow> string" where
  "string_of_nat n =
     (if n < 10 then [''0123456789'' ! n]
      else string_of_nat (n div 10) @ [''0123456789'' ! (n mod 10)])"

fun str_exc :: "exn \<Rightarrow> string" where
  "str_exc (Exc c m) = m"
| "str_exc (HTTPException code detail) = string_of_nat code @ '': '' @ detail"

section \<open>utils/audio.py\<close>

definition DEFAULT_SAMPLE_RATE :: int where
  "DEFAULT_SAMPLE_RATE = 16000"

definition DEFAULT_DURATION_SEC :: int where
  "DEFAULT_DURATION_SEC = 5"

text \<open>The slice \<^verbatim>\<open>xs[:k]\<close>: a negative stop counts from the end.\<close>

definition slice_to :: "'a list \<Rightarrow> int \<Rightarrow> 'a list" where
  "slice_to xs k =
     (if k < 0 then take (nat (int (length xs) + k)) xs else take (nat k) xs)"

text \<open>\<^verbatim>\<open>np.pad(waveform, (0, pad_width))\<close>: constant mode, zeros after the end.\<close>

definition np_pad_end :: "real list \<Rightarrow> int \<Rightarrow> real list" where
  "np_pad_end xs pad_width = xs @ replicate (nat pad_width) 0"

text \<open>
  \<^verbatim>\<open>librosa.load(path, sr=sample_rate, mono=True)\<close> is the decoder of the library; it is
  a parameter that either raises or gives the one-dimensional sample array.
\<close>

type_synonym librosa_load = "string \<Rightarrow> int \<Rightarrow> exn + real list"

definition load_waveform :: "librosa_load \<Rightarrow> string \<Rightarrow> int \<Rightarrow> exn + real list" where
  "load_waveform librosa path sample_rate =
     (case librosa path sample_rate of
        Inl e \<Rightarrow> Inl e
      | Inr waveform \<Rightarrow>
          (let target_length = sample_rate * DEFAULT_DURATION_SEC in
           if int (length waveform) < target_length
           then (let pad_width = target_length - int (length waveform)
                 in Inr (np_pad_end waveform pad_width))
           else Inr (slice_to waveform target_length)))"

section \<open>models/prediction.py\<close>

datatype Label = CRACKLE | WHEEZE | BOTH | NONE

fun Label_value :: "Label \<Rightarrow> string" where
  "Label_value CRACKLE = ''crackle''"
| "Label_value WHEEZE = ''wheeze''"
| "Label_value BOTH = ''both''"
| "Label_value NONE = ''none''"

text \<open>\<^verbatim>\<open>list(Label)\<close>: the members in the order of their definition.\<close>

definition Label_members :: "Label list" where
  "Label_members = [CRACKLE, WHEEZE, BOTH, NONE]"

datatype PredictionStatus = PENDING | PROCESSING | COMPLETED | FAILED

type_synonym datetime = nat

record PredictionCreate =
  filename :: string
  content_type :: string
  file_size :: int
  storage_path :: string
  user_id :: "string option"

text \<open>
  A document of the collection is the dump of a \<^verbatim>\<open>PredictionCreate\<close> extended with
  the keys the repository sets. A key that is absent from the dictionary and a field that
  is \<^verbatim>\<open>None\<close> in the \<^verbatim>\<open>Prediction\<close> read from it are the same thing here, and an
  enumeration member stands for the string value stored for it. The field \<open>notes'\<close>
  is the key \<^verbatim>\<open>notes\<close>, and \<open>prediction_id\<close> is the field \<^verbatim>\<open>id\<close> of a
  \<^verbatim>\<open>Prediction\<close> (its alias \<^verbatim>\<open>_id\<close>).
\<close>

record document = PredictionCreate +
  status :: PredictionStatus
  created_at :: datetime
  updated_at :: datetime
  label :: "Label option"
  confidence :: "real option"
  probabilities :: "(string \<rightharpoonup> real) option"
  notes' :: "string option"

record Prediction = document +
  prediction_id :: string

section \<open>bson: ObjectId of a string\<close>

text \<open>
  \<^verbatim>\<open>ObjectId(s)\<close> for a \<^verbatim>\<open>str\<close>: the string must have length 24 and
  \<^verbatim>\<open>bytes.fromhex\<close> must accept it (two adjacent hexadecimal digits per byte, ASCII
  white space skipped between bytes); anything else raises \<^verbatim>\<open>InvalidId\<close>.
  \<^verbatim>\<open>str(oid)\<close> is the lower-case hexadecimal text of the bytes.
\<close>

datatype oid = Oid "nat list"

definition hex_digits :: string where
  "hex_digits = ''0123456789abcdef''"

fun index_of :: "'a \<Rightarrow> 'a list \<Rightarrow> nat option" where
  "index_of x [] = None"
| "index_of x (y # ys) = (if x = y then Some 0 else map_option Suc (index_of x ys))"

definition hex_val :: "char \<Rightarrow> nat option" where
  "hex_val c =
     (case index_of c hex_digits of
        Some v \<Rightarrow> Some v
      | None \<Rightarrow> map_option (\<lambda>v. v + 10) (index_of c ''ABCDEF''))"

definition is_space :: "char \<Rightarrow> bool" where
  "is_space c = (c \<in> set [CHR '' '', CHR 0x09, CHR 0x0A, CHR 0x0B, CHR 0x0C, CHR 0x0D])"

fun bytes_fromhex :: "string \<Rightarrow> nat list option" where
  "bytes_fromhex [] = Some []"
| "bytes_fromhex [c] = (if is_space c then Some [] else None)"
| "bytes_fromhex (c # d # ds) =
     (if is_space c then bytes_fromhex (d # ds)
      else (case (hex_val c, hex_val d) of
              (Some h, Some l) \<Rightarrow> map_option ((#) (h * 16 + l)) (bytes_fromhex ds)
            | _ \<Rightarrow> None))"

definition invalid_id_message :: "string \<Rightarrow> string" where
  "invalid_id_message s =
     [CHR 0x27] @ s @ [CHR 0x27] @
     '' is not a valid ObjectId, it must be a 12-byte input or a 24-character hex string''"

definition ObjectId :: "string \<Rightarrow> exn + oid" where
  "ObjectId s =
     (if length s = 24
      then (case bytes_fromhex s of
              Some bs \<Rightarrow> Inr (Oid bs)
            | None \<Rightarrow> Inl (Exc InvalidId (invalid_id_message s)))
      else Inl (Exc InvalidId (invalid_id_message s)))"

definition hex_byte :: "nat \<Rightarrow> string" where
  "hex_byte b = [hex_digits ! (b div 16 mod 16), hex_digits ! (b mod 16)]"

fun str_oid :: "oid \<Rightarrow> string" where
  "str_oid (Oid bs) = concat (map hex_byte bs)"

section \<open>repositories/predictions.py\<close>

text \<open>The collection \<^verbatim>\<open>predictions\<close>: the documents by their \<^verbatim>\<open>_id\<close>.\<close>

type_synonym collection = "oid \<rightharpoonup> document"

text \<open>\<^verbatim>\<open>Prediction(**self._normalize(document))\<close>: the \<^verbatim>\<open>_id\<close> becomes its string.\<close>

definition normalize :: "oid \<Rightarrow> document \<Rightarrow> Prediction" where
  "normalize i d = document.extend d (Prediction.fields (str_oid i))"


definition PredictionRepository_get :: "collection \<Rightarrow> string \<Rightarrow> exn + Prediction option" where
  "PredictionRepository_get coll pid =
     (case ObjectId pid of
        Inl e \<Rightarrow> (if exc_class_of e = InvalidId then Inr None else Inl e)
      | Inr i \<Rightarrow>
          (case coll i of
             None \<Rightarrow> Inr None
           | Some d \<Rightarrow> Inr (Some (normalize i d))))"

text \<open>The keys of the \<^verbatim>\<open>$set\<close> dictionary, in the order \<^verbatim>\<open>update_status\<close> adds them.\<close>

datatype field_set =
    Set_status PredictionStatus
  | Set_updated_at datetime
  | Set_label Label
  | Set_confidence real
  | Set_probabilities "string \<rightharpoonup> real"
  | Set_notes string

fun apply_set :: "field_set \<Rightarrow> document \<Rightarrow> document" where
  "apply_set (Set_status s) d = d\<lparr>status := s\<rparr>"
| "apply_set (Set_updated_at t) d = d\<lparr>updated_at := t\<rparr>"
| "apply_set (Set_label l) d = d\<lparr>label := Some l\<rparr>"
| "apply_set (Set_confidence c) d = d\<lparr>confidence := Some c\<rparr>"
| "apply_set (Set_probabilities p) d = d\<lparr>probabilities := Some p\<rparr>"
| "apply_set (Set_notes n) d = d\<lparr>notes' := Some n\<rparr>"

text \<open>\<^verbatim>\<open>find_one_and_update\<close> with \<^verbatim>\<open>ReturnDocument.AFTER\<close>.\<close>

definition find_one_and_update ::
  "collection \<Rightarrow> oid \<Rightarrow> field_set list \<Rightarrow> (oid \<times> document) option \<times> collection" where
  "find_one_and_update coll i updates =
     (case coll i of
        None \<Rightarrow> (None, coll)
      | Some d \<Rightarrow> (let d' = fold apply_set updates d in (Some (i, d'), coll(i \<mapsto> d'))))"

definition optional_set :: "('a \<Rightarrow> field_set) \<Rightarrow> 'a option \<Rightarrow> field_set list" where
  "optional_set f v = (case v of None \<Rightarrow> [] | Some x \<Rightarrow> [f x])"

definition update_status ::
  "datetime \<Rightarrow> collection \<Rightarrow> string \<Rightarrow> PredictionStatus \<Rightarrow> Label option \<Rightarrow> real option
   \<Rightarrow> (string \<rightharpoonup> real) option \<Rightarrow> string option \<Rightarrow> (exn + Prediction option) \<times> collection" where
  "update_status now coll pid st lbl conf probs nts =
     (let updates = [Set_status st, Set_updated_at now]
            @ optional_set Set_label lbl
            @ optional_set Set_confidence conf
            @ optional_set Set_probabilities probs
            @ optional_set Set_notes nts
      in case ObjectId pid of
           Inl e \<Rightarrow> (Inl e, coll)
         | Inr i \<Rightarrow>
             (case find_one_and_update coll i updates of
                (None, coll') \<Rightarrow> (Inr None, coll')
              | (Some (j, d), coll') \<Rightarrow> (Inr (Some (normalize j d)), coll')))"

section \<open>routers/audio.py: reading a prediction\<close>

definition get_prediction :: "collection \<Rightarrow> string \<Rightarrow> exn + Prediction" where
  "get_prediction coll pid =
     (case PredictionRepository_get coll pid of
        Inl e \<Rightarrow> Inl e
      | Inr None \<Rightarrow> Inl (HTTPException 404 ''Prediction not found'')
      | Inr (Some prediction) \<Rightarrow> Inr prediction)"

section \<open>services/inference.py and services/pytorch_inference.py: from logits to a result\<close>

text \<open>
  Arrays of floats are lists of reals: rounding, infinities and NaN are outside the
  model. An index into a list or an array raises \<^verbatim>\<open>IndexError\<close> beyond its length;
  the text is the one of a list (the one of an array names the index and the size).
\<close>

definition py_index :: "'a list \<Rightarrow> nat \<Rightarrow> exn + 'a" where
  "py_index xs i =
     (if i < length xs then Inr (xs ! i)
      else Inl (Exc IndexError ''list index out of range''))"

text \<open>
  \<^verbatim>\<open>_softmax\<close>, the same static method in both services; \<^verbatim>\<open>np.max\<close> of an empty
  array raises \<^verbatim>\<open>ValueError\<close>.
\<close>

definition softmax :: "real list \<Rightarrow> exn + real list" where
  "softmax logits =
     (if logits = []
      then Inl (Exc ValueError
             ''zero-size array to reduction operation maximum which has no identity'')
      else (let e = map (\<lambda>x. exp (x - Max (set logits))) logits
            in Inr (map (\<lambda>x. x / sum_list e) e)))"

text \<open>\<^verbatim>\<open>argmax\<close>: the first index of the maximum.\<close>

definition argmax :: "real list \<Rightarrow> nat" where
  "argmax xs = length (takeWhile (\<lambda>x. x \<noteq> Max (set xs)) xs)"

text \<open>The dictionary that \<^verbatim>\<open>predict\<close> returns.\<close>

record prediction_result =
  result_label :: Label
  result_confidence :: real
  result_probabilities :: "string \<rightharpoonup> real"

text \<open>
  The dictionary comprehension of \<^verbatim>\<open>AudioInferenceService.predict\<close> over
  \<^verbatim>\<open>enumerate(Label)\<close>.
\<close>

fun onnx_prob_dict ::
  "real list \<Rightarrow> (nat \<times> Label) list \<Rightarrow> (string \<rightharpoonup> real) \<Rightarrow> exn + (string \<rightharpoonup> real)" where
  "onnx_prob_dict p [] acc = Inr acc"
| "onnx_prob_dict p ((idx, l) # rest) acc =
     (case py_index p idx of
        Inl e \<Rightarrow> Inl e
      | Inr v \<Rightarrow> onnx_prob_dict p rest (acc(Label_value l \<mapsto> v)))"

text \<open>
  \<^verbatim>\<open>AudioInferenceService.predict\<close> from the squeezed logits on: softmax, argmax,
  \<^verbatim>\<open>list(Label)[label_idx]\<close>, the confidence and the dictionary.
\<close>

definition onnx_result :: "real list \<Rightarrow> exn + prediction_result" where
  "onnx_result logits =
     (case softmax logits of
        Inl e \<Rightarrow> Inl e
      | Inr p \<Rightarrow>
          (let label_idx = argmax p in
           case py_index Label_members label_idx of
             Inl e \<Rightarrow> Inl e
           | Inr l \<Rightarrow>
               (case py_index p label_idx of
                  Inl e \<Rightarrow> Inl e
                | Inr c \<Rightarrow>
                    (case onnx_prob_dict p (enumerate 0 Label_members) Map.empty of
                       Inl e \<Rightarrow> Inl e
                     | Inr d \<Rightarrow>
                         Inr \<lparr>result_label = l, result_confidence = c,
                              result_probabilities = d\<rparr>))))"

text \<open>The dictionary \<^verbatim>\<open>label_mapping\<close> of \<^verbatim>\<open>PyTorchAudioInferenceService.predict\<close>.\<close>

definition label_mapping :: "(nat \<times> Label) list" where
  "label_mapping = [(0, NONE), (1, CRACKLE), (2, WHEEZE), (3, BOTH)]"

text \<open>
  The loop that fills \<^verbatim>\<open>prob_dict\<close>: for each member of \<^verbatim>\<open>Label\<close> the first item of
  \<^verbatim>\<open>label_mapping\<close> that maps to it gives the index, and the \<^verbatim>\<open>else\<close> of the inner
  loop stores 0.0.
\<close>

fun pytorch_prob_dict ::
  "real list \<Rightarrow> Label list \<Rightarrow> (string \<rightharpoonup> real) \<Rightarrow> exn + (string \<rightharpoonup> real)" where
  "pytorch_prob_dict p [] acc = Inr acc"
| "pytorch_prob_dict p (label_enum # rest) acc =
     (case find (\<lambda>(model_idx, mapped_label). mapped_label = label_enum) label_mapping of
        Some (model_idx, mapped_label) \<Rightarrow>
          (case py_index p model_idx of
             Inl e \<Rightarrow> Inl e
           | Inr v \<Rightarrow> pytorch_prob_dict p rest (acc(Label_value label_enum \<mapsto> v)))
      | None \<Rightarrow> pytorch_prob_dict p rest (acc(Label_value label_enum \<mapsto> 0)))"

text \<open>
  \<^verbatim>\<open>PyTorchAudioInferenceService.predict\<close> from the squeezed logits on;
  \<^verbatim>\<open>label_mapping.get(label_idx, Label.NONE)\<close> falls back to \<^verbatim>\<open>NONE\<close>.
\<close>

definition pytorch_result :: "real list \<Rightarrow> exn + prediction_result" where
  "pytorch_result logits =
     (case softmax logits of
        Inl e \<Rightarrow> Inl e
      | Inr p \<Rightarrow>
          (let label_idx = argmax p;
               l = (case map_of label_mapping label_idx of Some m \<Rightarrow> m | None \<Rightarrow> NONE) in
           case pytorch_prob_dict p Label_members Map.empty of
             Inl e \<Rightarrow> Inl e
           | Inr d \<Rightarrow>
               (case py_index p label_idx of
                  Inl e \<Rightarrow> Inl e
                | Inr c \<Rightarrow>
                    Inr \<lparr>result_label = l, result_confidence = c,
                         result_probabilities = d\<rparr>)))"

section \<open>models/hftt_model.py\<close>

text \<open>
  The checkpoint that \<^verbatim>\<open>torch.load\<close> reads: the training arguments (an argparse
  namespace, with the attributes the loader looks at, each possibly absent), the state of
  the model and the state of the classifier, stored as one dictionary or as a list of them.
\<close>

datatype state_dict = StateDict nat

record train_args =
  args_model :: "string option"
  args_nospec :: "bool option"
  args_n_cls :: "nat option"

datatype classifier_entry = AsList "state_dict list" | AsDict state_dict

record checkpoint =
  ck_args :: "train_args option"
  ck_model :: "state_dict option"
  ck_classifier :: "classifier_entry option"

datatype loaded = CheckpointDict checkpoint | NotADict

datatype spec_augment = SpecAugment train_args

record backbone_kwargs =
  spec_transform :: "spec_augment option"
  kw_beats_model_path :: "string option"
  kw_model_path :: "string option"

text \<open>
  The modules the loader builds: a backbone of the training repository by its name and
  keyword arguments, or the linear classifier of \<^verbatim>\<open>create_simple_classifier\<close>, each with
  the state loaded into it.
\<close>

datatype module =
    Backbone string backbone_kwargs "state_dict option"
  | Linear nat nat "state_dict option"

text \<open>
  Arrays handed to a backend: the waveform (one axis) or the mel-spectrogram (two axes).
  A tensor of features that the backbone returns for the one waveform of the batch: of
  shape \<open>[1, D]\<close>, of shape \<open>[1, N, D]\<close> (the list of its \<open>N\<close> rows), or of another rank.
\<close>

datatype ndarray = Array1 "real list" | Array2 "real list list"

datatype tensor = Tensor2 "real list" | Tensor3 "real list list" | TensorOther

text \<open>
  What the loader and the PyTorch service ask of PyTorch, of the file system and of the training repository
  ICBHI_2017. A step that can raise gives the exception, \<open>None\<close> meaning that it
  went through.
\<close>

record torch_env =
  torch_load :: "string \<Rightarrow> exn + loaded"
  path_exists :: "string \<Rightarrow> bool"
  absolute :: "string \<Rightarrow> string"
  getcwd :: "exn + string"
  chdir :: "string \<Rightarrow> exn option"
  import_get_backbone_class :: "exn option"
  import_SpecAugment :: "train_args \<Rightarrow> exn option"
  construct_backbone :: "string \<Rightarrow> backbone_kwargs \<Rightarrow> exn option"
  load_state_dict :: "module \<Rightarrow> state_dict \<Rightarrow> exn option"
  final_feat_dim :: "module \<Rightarrow> exn + nat"
  to_device :: "module \<Rightarrow> exn option"
  forward_model :: "module \<Rightarrow> ndarray \<Rightarrow> exn + tensor"
  forward_classifier :: "module \<Rightarrow> tensor \<Rightarrow> exn + real list"

definition create_simple_classifier :: "nat \<Rightarrow> nat \<Rightarrow> module" where
  "create_simple_classifier input_dim output_dim = Linear input_dim output_dim None"

fun with_state :: "module \<Rightarrow> state_dict \<Rightarrow> module" where
  "with_state (Backbone name kwargs s) sd = Backbone name kwargs (Some sd)"
| "with_state (Linear i n s) sd = Linear i n (Some sd)"

text \<open>
  The keyword \<^verbatim>\<open>spec_transform\<close>: no transform when \<^verbatim>\<open>args.nospec\<close> is set, else
  \<^verbatim>\<open>SpecAugment(args)\<close>, where only an \<^verbatim>\<open>ImportError\<close> is caught.
\<close>

definition spec_kwargs :: "torch_env \<Rightarrow> train_args \<Rightarrow> exn + backbone_kwargs" where
  "spec_kwargs env args =
     (if args_nospec args = Some True
      then Inr \<lparr>spec_transform = None, kw_beats_model_path = None, kw_model_path = None\<rparr>
      else (case import_SpecAugment env args of
              None \<Rightarrow> Inr \<lparr>spec_transform = Some (SpecAugment args),
                           kw_beats_model_path = None, kw_model_path = None\<rparr>
            | Some e \<Rightarrow>
                (if exc_class_of e = ImportError
                 then Inr \<lparr>spec_transform = None, kw_beats_model_path = None,
                           kw_model_path = None\<rparr>
                 else Inl e)))"

definition beats_model_path :: "string \<Rightarrow> string" where
  "beats_model_path icbhi_path_str =
     icbhi_path_str @ ''/pretrained_models/BEATs_iter3_plus_AS2M.pt''"

text \<open>
  The branches on \<^verbatim>\<open>model_type\<close>, which is \<^verbatim>\<open>getattr(args, "model", None)\<close> when the
  checkpoint has arguments and \<^verbatim>\<open>None\<close> otherwise.
\<close>

definition build_backbone :: "torch_env \<Rightarrow> checkpoint \<Rightarrow> string \<Rightarrow> exn + module" where
  "build_backbone env ckpt icbhi_path_str =
     (case ck_args ckpt of
        None \<Rightarrow> Inl (Exc ValueError ''Unsupported model type: None'')
      | Some args \<Rightarrow>
          (if args_model args = Some ''hftt''
           then (case spec_kwargs env args of
                   Inl e \<Rightarrow> Inl e
                 | Inr kw \<Rightarrow>
                     (let kwargs =
                            (if path_exists env (beats_model_path icbhi_path_str)
                             then kw\<lparr>kw_beats_model_path :=
                                       Some (beats_model_path icbhi_path_str)\<rparr>
                             else kw)
                      in case construct_backbone env ''hftt'' kwargs of
                           Some e \<Rightarrow> Inl e
                         | None \<Rightarrow> Inr (Backbone ''hftt'' kwargs None)))
           else if args_model args = Some ''beats''
           then (case spec_kwargs env args of
                   Inl e \<Rightarrow> Inl e
                 | Inr kw \<Rightarrow>
                     (let kwargs =
                            (if path_exists env (beats_model_path icbhi_path_str)
                             then kw\<lparr>kw_model_path :=
                                       Some (beats_model_path icbhi_path_str)\<rparr>
                             else kw)
                      in case construct_backbone env ''beats'' kwargs of
                           Some e \<Rightarrow> Inl e
                         | None \<Rightarrow> Inr (Backbone ''beats'' kwargs None)))
           else Inl (Exc ValueError
                  (''Unsupported model type: ''
                   @ (case args_model args of None \<Rightarrow> ''None'' | Some m \<Rightarrow> m)))))"

definition classifier_state :: "checkpoint \<Rightarrow> exn + state_dict" where
  "classifier_state ckpt =
     (case ck_classifier ckpt of
        None \<Rightarrow> Inl (Exc KeyError ([CHR 0x27] @ ''classifier'' @ [CHR 0x27]))
      | Some (AsList []) \<Rightarrow> Inl (Exc IndexError ''list index out of range'')
      | Some (AsList (s # rest)) \<Rightarrow> Inr s
      | Some (AsDict s) \<Rightarrow> Inr s)"

definition n_cls_of :: "checkpoint \<Rightarrow> exn + nat" where
  "n_cls_of ckpt =
     (case ck_args ckpt of
        None \<Rightarrow> Inr 4
      | Some args \<Rightarrow>
          (case args_n_cls args of
             None \<Rightarrow> Inl (Exc AttributeError
                      ([CHR 0x27] @ ''Namespace'' @ [CHR 0x27] @ '' object has no attribute ''
                       @ [CHR 0x27] @ ''n_cls'' @ [CHR 0x27]))
           | Some n \<Rightarrow> Inr n))"

text \<open>The body of the inner \<^verbatim>\<open>try\<close>, between the two changes of directory.\<close>

definition icbhi_body :: "torch_env \<Rightarrow> checkpoint \<Rightarrow> string \<Rightarrow> exn + module \<times> module" where
  "icbhi_body env ckpt icbhi_path_str =
     (case chdir env icbhi_path_str of
        Some e \<Rightarrow> Inl e
      | None \<Rightarrow>
     (case import_get_backbone_class env of
        Some e \<Rightarrow> Inl e
      | None \<Rightarrow>
     (case build_backbone env ckpt icbhi_path_str of
        Inl e \<Rightarrow> Inl e
      | Inr model \<Rightarrow>
     (case ck_model ckpt of
        None \<Rightarrow> Inl (Exc KeyError ([CHR 0x27] @ ''model'' @ [CHR 0x27]))
      | Some sd \<Rightarrow>
     (case load_state_dict env model sd of
        Some e \<Rightarrow> Inl e
      | None \<Rightarrow>
     (case final_feat_dim env (with_state model sd) of
        Inl e \<Rightarrow> Inl e
      | Inr input_dim \<Rightarrow>
     (case n_cls_of ckpt of
        Inl e \<Rightarrow> Inl e
      | Inr output_dim \<Rightarrow>
     (case classifier_state ckpt of
        Inl e \<Rightarrow> Inl e
      | Inr cs \<Rightarrow>
     (case load_state_dict env (create_simple_classifier input_dim output_dim) cs of
        Some e \<Rightarrow> Inl e
      | None \<Rightarrow>
          Inr (with_state model sd,
               with_state (create_simple_classifier input_dim output_dim) cs))))))))))"

text \<open>
  The outer \<^verbatim>\<open>try\<close>: the current directory is read, the body runs, and the
  \<^verbatim>\<open>finally\<close> changes back whether the body returned or raised; an exception of the
  \<^verbatim>\<open>finally\<close> replaces the outcome of the body.
\<close>

definition icbhi_import :: "torch_env \<Rightarrow> checkpoint \<Rightarrow> string \<Rightarrow> exn + module \<times> module" where
  "icbhi_import env ckpt icbhi_path_str =
     (case getcwd env of
        Inl e \<Rightarrow> Inl e
      | Inr original_cwd \<Rightarrow>
          (let outcome = icbhi_body env ckpt icbhi_path_str
           in case chdir env original_cwd of
                Some e \<Rightarrow> Inl e
              | None \<Rightarrow> outcome))"

text \<open>The messages of the two \<^verbatim>\<open>RuntimeError\<close>s; the text of the traceback is left out.\<close>

definition import_failed_message :: "string \<Rightarrow> string \<Rightarrow> exn \<Rightarrow> string" where
  "import_failed_message checkpoint_path icbhi_path e =
     ''Failed to load PyTorch model from '' @ checkpoint_path
     @ '': Could not import from ICBHI_2017: '' @ str_exc e
     @ [CHR 0x0A] @ ''Make sure ICBHI_2017 directory is accessible at '' @ icbhi_path"

definition no_architecture_message :: string where
  "no_architecture_message =
     ''Cannot load model without ICBHI_2017 architecture. ''
     @ ''Please ensure ICBHI_2017 directory is accessible or provide icbhi_path.''"

text \<open>
  \<^verbatim>\<open>load_model_with_wrapper\<close>. The list \<^verbatim>\<open>sys.path\<close> is passed in and returned, since
  the function puts the directory in front of it and leaves it there.
\<close>

definition load_model_with_wrapper ::
  "torch_env \<Rightarrow> string list \<Rightarrow> string \<Rightarrow> string option \<Rightarrow> bool
   \<Rightarrow> (exn + module \<times> module) \<times> string list" where
  "load_model_with_wrapper env sys_path checkpoint_path icbhi_path use_icbhi_import =
     (case torch_load env checkpoint_path of
        Inl e \<Rightarrow> (Inl e, sys_path)
      | Inr NotADict \<Rightarrow>
          (Inl (Exc AttributeError ''object has no attribute get''), sys_path)
      | Inr (CheckpointDict ckpt) \<Rightarrow>
          (case icbhi_path of
             None \<Rightarrow> (Inl (Exc RuntimeError no_architecture_message), sys_path)
           | Some path \<Rightarrow>
               (if use_icbhi_import \<and> path_exists env path
                then (let icbhi_path_str = absolute env path;
                          sys_path' = (if icbhi_path_str \<in> set sys_path then sys_path
                                       else icbhi_path_str # sys_path)
                      in case icbhi_import env ckpt icbhi_path_str of
                           Inl e \<Rightarrow>
                             (Inl (Exc RuntimeError
                                    (import_failed_message checkpoint_path path e)),
                              sys_path')
                         | Inr mc \<Rightarrow> (Inr mc, sys_path'))
                else (Inl (Exc RuntimeError no_architecture_message), sys_path))))"

section \<open>core/config.py\<close>

text \<open>The class \<^verbatim>\<open>Settings\<close> with the fields it declares, and \<^verbatim>\<open>Settings()\<close>.\<close>

record Settings =
  app_name :: string
  environment :: string
  mongo_uri :: string
  mongo_db :: string
  storage_bucket :: string
  upload_dir :: string
  model_path :: string
  inference_batch_size :: int
  allow_origins :: "string list"
  infra_path :: "string option"
  momo_path :: "string option"

definition default_Settings :: Settings where
  "default_Settings =
     \<lparr>app_name = ''COPD Lung Sound Inference API'',
      environment = ''development'',
      mongo_uri = ''mongodb://localhost:27017/copd_app'',
      mongo_db = ''copd_app'',
      storage_bucket = ''lung-audio'',
      upload_dir = ''/tmp/copd/uploads'',
      model_path = ''models/audio_classifier.onnx'',
      inference_batch_size = 1,
      allow_origins = [''http://localhost:3000''],
      infra_path = Some ''/app/infra/infra.json'',
      momo_path = Some ''/app/resources/momo.json''\<rparr>"

datatype pyval = PyStr string | PyPath string | PyInt int | PyList "string list" | PyNone

definition optional_path :: "string option \<Rightarrow> pyval" where
  "optional_path p = (case p of None \<Rightarrow> PyNone | Some q \<Rightarrow> PyPath q)"

text \<open>
  The data attributes of an instance of \<^verbatim>\<open>Settings\<close>, by name: one for each declared
  field, since the class takes no extra fields.
\<close>

definition Settings_attributes :: "Settings \<Rightarrow> (string \<times> pyval) list" where
  "Settings_attributes s =
     [(''app_name'', PyStr (app_name s)),
      (''environment'', PyStr (environment s)),
      (''mongo_uri'', PyStr (mongo_uri s)),
      (''mongo_db'', PyStr (mongo_db s)),
      (''storage_bucket'', PyStr (storage_bucket s)),
      (''upload_dir'', PyPath (upload_dir s)),
      (''model_path'', PyPath (model_path s)),
      (''inference_batch_size'', PyInt (inference_batch_size s)),
      (''allow_origins'', PyList (allow_origins s)),
      (''infra_path'', optional_path (infra_path s)),
      (''momo_path'', optional_path (momo_path s))]"

definition no_attribute :: "string \<Rightarrow> exn" where
  "no_attribute name =
     Exc AttributeError
       ([CHR 0x27] @ ''Settings'' @ [CHR 0x27] @ '' object has no attribute ''
        @ [CHR 0x27] @ name @ [CHR 0x27])"

definition Settings_getattr :: "Settings \<Rightarrow> string \<Rightarrow> exn + pyval" where
  "Settings_getattr s name =
     (case map_of (Settings_attributes s) name of
        Some v \<Rightarrow> Inr v
      | None \<Rightarrow> Inl (no_attribute name))"

text \<open>
  The settings object as the services and the router read it: the three attributes they
  read, each absent (reading it raises \<^verbatim>\<open>AttributeError\<close>) or holding a value of the
  type the code expects (a path, a string, a path or \<^verbatim>\<open>None\<close>).
\<close>

record settings_object =
  attr_model_path :: "string option"
  attr_model_type :: "string option"
  attr_icbhi_path :: "string option option"

definition read_attr :: "string \<Rightarrow> 'a option \<Rightarrow> exn + 'a" where
  "read_attr name v = (case v of None \<Rightarrow> Inl (no_attribute name) | Some x \<Rightarrow> Inr x)"

text \<open>The object \<^verbatim>\<open>settings\<close> of the module, an instance of \<^verbatim>\<open>Settings\<close>.\<close>

definition settings_of :: "Settings \<Rightarrow> settings_object" where
  "settings_of s =
     \<lparr>attr_model_path =
        (case Settings_getattr s ''model_path'' of Inr (PyPath p) \<Rightarrow> Some p | _ \<Rightarrow> None),
      attr_model_type =
        (case Settings_getattr s ''model_type'' of Inr (PyStr t) \<Rightarrow> Some t | _ \<Rightarrow> None),
      attr_icbhi_path =
        (case Settings_getattr s ''icbhi_path'' of
           Inr (PyPath p) \<Rightarrow> Some (Some p)
         | Inr PyNone \<Rightarrow> Some None
         | _ \<Rightarrow> None)\<rparr>"

text \<open>\<^verbatim>\<open>str.lower\<close> on the ASCII letters.\<close>

definition ascii_lower :: "char \<Rightarrow> char" where
  "ascii_lower c =
     (case index_of c ''ABCDEFGHIJKLMNOPQRSTUVWXYZ'' of
        Some i \<Rightarrow> ''abcdefghijklmnopqrstuvwxyz'' ! i
      | None \<Rightarrow> c)"

definition lower :: "string \<Rightarrow> string" where
  "lower s = map ascii_lower s"

section \<open>services/inference.py: the ONNX service\<close>

text \<open>
  What the service asks of ONNX Runtime: opening a session on a model file, and running
  it on the batched input, which gives the squeezed first output.
\<close>

datatype ort_session = InferenceSession string

record onnx_env =
  create_session :: "string \<Rightarrow> exn option"
  run_session :: "ort_session \<Rightarrow> ndarray \<Rightarrow> exn + real list"

record AudioInferenceService =
  onnx_model_path :: string
  session :: "ort_session option"

text \<open>
  \<^verbatim>\<open>load\<close>. The body under the lock has no \<^verbatim>\<open>await\<close>: in a sequential run the lock is
  free on entry and free again on exit, and it is left out here.
\<close>

definition AudioInferenceService_load ::
  "onnx_env \<Rightarrow> AudioInferenceService \<Rightarrow> exn option \<times> AudioInferenceService" where
  "AudioInferenceService_load env svc =
     (case session svc of
        None \<Rightarrow>
          (case create_session env (onnx_model_path svc) of
             Some e \<Rightarrow> (Some e, svc)
           | None \<Rightarrow> (None, svc\<lparr>session := Some (InferenceSession (onnx_model_path svc))\<rparr>))
      | Some s \<Rightarrow> (None, svc))"

definition AudioInferenceService_predict ::
  "onnx_env \<Rightarrow> AudioInferenceService \<Rightarrow> ndarray
   \<Rightarrow> (exn + prediction_result) \<times> AudioInferenceService" where
  "AudioInferenceService_predict env svc features =
     (case (if session svc = None then AudioInferenceService_load env svc else (None, svc)) of
        (Some e, svc1) \<Rightarrow> (Inl e, svc1)
      | (None, svc1) \<Rightarrow>
          (case session svc1 of
             None \<Rightarrow> (Inl (Exc AssertionError ''''), svc1)
           | Some s \<Rightarrow>
               (case run_session env s features of
                  Inl e \<Rightarrow> (Inl e, svc1)
                | Inr logits \<Rightarrow> (onnx_result logits, svc1))))"

section \<open>models/hftt_model.py: PyTorchModelLoader\<close>

text \<open>
  \<^verbatim>\<open>get_model_info\<close> on the entries of the checkpoint that this model has: whether the
  model and the classifier are there, and the model type and the number of classes of
  the training arguments.
\<close>

record model_info =
  has_model :: bool
  has_classifier :: bool
  info_model_type :: "string option"
  info_n_cls :: "nat option"

definition get_model_info :: "torch_env \<Rightarrow> string \<Rightarrow> exn + model_info" where
  "get_model_info env checkpoint_path =
     (if \<not> path_exists env checkpoint_path
      then Inl (Exc FileNotFoundError (''Checkpoint not found: '' @ checkpoint_path))
      else (case torch_load env checkpoint_path of
              Inl e \<Rightarrow> Inl e
            | Inr NotADict \<Rightarrow> Inl (Exc AttributeError ''object has no attribute get'')
            | Inr (CheckpointDict ckpt) \<Rightarrow>
                (if ck_classifier ckpt = Some (AsList [])
                 then Inl (Exc IndexError ''list index out of range'')
                 else Inr \<lparr>has_model = (ck_model ckpt \<noteq> None),
                           has_classifier = (ck_classifier ckpt \<noteq> None),
                           info_model_type =
                             (case ck_args ckpt of
                                None \<Rightarrow> None
                              | Some a \<Rightarrow>
                                  Some (case args_model a of None \<Rightarrow> ''unknown''
                                        | Some m \<Rightarrow> m)),
                           info_n_cls =
                             (case ck_args ckpt of None \<Rightarrow> None | Some a \<Rightarrow> args_n_cls a)\<rparr>)))"

section \<open>services/pytorch_inference.py: the PyTorch service\<close>

record PyTorchAudioInferenceService =
  pt_model_path :: string
  pt_icbhi_path :: "string option"
  pt_model :: "module option"
  pt_classifier :: "module option"
  pt_model_info :: "model_info option"

definition load_failed_message :: "string \<Rightarrow> string option \<Rightarrow> exn \<Rightarrow> string" where
  "load_failed_message path icbhi e =
     ''Failed to load PyTorch model from '' @ path @ '':'' @ [CHR 0x0A]
     @ ''Error: '' @ str_exc e @ [CHR 0x0A]
     @ ''Make sure:'' @ [CHR 0x0A]
     @ ''  1. ICBHI_2017 directory is accessible at ''
     @ (case icbhi of None \<Rightarrow> ''None'' | Some p \<Rightarrow> p) @ [CHR 0x0A]
     @ ''  2. Model path is correct: '' @ path @ [CHR 0x0A]
     @ ''  3. Required dependencies are installed''"

text \<open>The body of the \<^verbatim>\<open>try\<close> in \<^verbatim>\<open>load\<close>; the attributes are assigned as it goes.\<close>

definition load_steps ::
  "torch_env \<Rightarrow> string list \<Rightarrow> PyTorchAudioInferenceService
   \<Rightarrow> exn option \<times> PyTorchAudioInferenceService \<times> string list" where
  "load_steps env sys_path svc =
     (case get_model_info env (pt_model_path svc) of
        Inl e \<Rightarrow> (Some e, svc, sys_path)
      | Inr info \<Rightarrow>
          (let svc1 = svc\<lparr>pt_model_info := Some info\<rparr>
           in case load_model_with_wrapper env sys_path (pt_model_path svc)
                     (pt_icbhi_path svc) True of
                (Inl e, sp) \<Rightarrow> (Some e, svc1, sp)
              | (Inr (m, c), sp) \<Rightarrow>
                  (let svc2 = svc1\<lparr>pt_model := Some m, pt_classifier := Some c\<rparr>
                   in case to_device env m of
                        Some e \<Rightarrow> (Some e, svc2, sp)
                      | None \<Rightarrow>
                          (case to_device env c of
                             Some e \<Rightarrow> (Some e, svc2, sp)
                           | None \<Rightarrow> (None, svc2, sp)))))"

definition PyTorchAudioInferenceService_load ::
  "torch_env \<Rightarrow> string list \<Rightarrow> PyTorchAudioInferenceService
   \<Rightarrow> exn option \<times> PyTorchAudioInferenceService \<times> string list" where
  "PyTorchAudioInferenceService_load env sys_path svc =
     (case pt_model svc of
        None \<Rightarrow>
          (case load_steps env sys_path svc of
             (Some e, svc', sp) \<Rightarrow>
               (Some (Exc RuntimeError
                        (load_failed_message (pt_model_path svc) (pt_icbhi_path svc) e)),
                svc', sp)
           | (None, svc', sp) \<Rightarrow> (None, svc', sp))
      | Some m \<Rightarrow> (None, svc, sys_path))"

text \<open>
  The features of the backbone before the classifier: \<open>[1, 1, D]\<close> is squeezed to
  \<open>[1, D]\<close>, another \<open>[1, N, D]\<close> is averaged over its rows, any other rank is
  passed on.
\<close>

definition mean_rows :: "real list list \<Rightarrow> real list" where
  "mean_rows rows =
     (case rows of
        [] \<Rightarrow> []
      | r # rest \<Rightarrow>
          map (\<lambda>j. sum_list (map (\<lambda>row. row ! j) rows) / real (length rows))
            [0..<length r])"

fun pool_features :: "tensor \<Rightarrow> tensor" where
  "pool_features (Tensor3 rows) =
     (if length rows = 1 then Tensor2 (hd rows) else Tensor2 (mean_rows rows))"
| "pool_features t = t"

definition PyTorchAudioInferenceService_predict ::
  "torch_env \<Rightarrow> string list \<Rightarrow> PyTorchAudioInferenceService \<Rightarrow> ndarray
   \<Rightarrow> (exn + prediction_result) \<times> PyTorchAudioInferenceService \<times> string list" where
  "PyTorchAudioInferenceService_predict env sys_path svc waveform =
     (case (if pt_model svc = None then PyTorchAudioInferenceService_load env sys_path svc
            else (None, svc, sys_path)) of
        (Some e, svc1, sp) \<Rightarrow> (Inl e, svc1, sp)
      | (None, svc1, sp) \<Rightarrow>
          (case pt_model svc1 of
             None \<Rightarrow> (Inl (Exc AssertionError ''''), svc1, sp)
           | Some m \<Rightarrow>
               (case pt_classifier svc1 of
                  None \<Rightarrow> (Inl (Exc AssertionError ''''), svc1, sp)
                | Some c \<Rightarrow>
                    (case forward_model env m waveform of
                       Inl e \<Rightarrow> (Inl e, svc1, sp)
                     | Inr features \<Rightarrow>
                         (case forward_classifier env c (pool_features features) of
                            Inl e \<Rightarrow> (Inl e, svc1, sp)
                          | Inr logits \<Rightarrow> (pytorch_result logits, svc1, sp))))))"

section \<open>services: the module-level instances and the choice of the backend\<close>

text \<open>
  The instance \<^verbatim>\<open>inference_service\<close> made when \<^verbatim>\<open>services/inference.py\<close> is imported,
  the global \<^verbatim>\<open>pytorch_inference_service\<close>, which starts as \<^verbatim>\<open>None\<close>, and
  \<^verbatim>\<open>sys.path\<close>.
\<close>

record app_globals =
  inference_service :: AudioInferenceService
  pytorch_inference_service :: "PyTorchAudioInferenceService option"
  sys_path :: "string list"

datatype service_ref = OnnxService | PyTorchService

text \<open>
  \<^verbatim>\<open>get_pytorch_inference_service\<close>: the constructor is called without arguments, so it
  reads \<^verbatim>\<open>settings.model_path\<close> and \<^verbatim>\<open>settings.icbhi_path\<close>.
\<close>

definition get_pytorch_inference_service ::
  "settings_object \<Rightarrow> app_globals \<Rightarrow> (exn + service_ref) \<times> app_globals" where
  "get_pytorch_inference_service settings g =
     (case pytorch_inference_service g of
        Some svc \<Rightarrow> (Inr PyTorchService, g)
      | None \<Rightarrow>
          (case read_attr ''model_path'' (attr_model_path settings) of
             Inl e \<Rightarrow> (Inl e, g)
           | Inr mp \<Rightarrow>
               (case read_attr ''icbhi_path'' (attr_icbhi_path settings) of
                  Inl e \<Rightarrow> (Inl e, g)
                | Inr ip \<Rightarrow>
                    (Inr PyTorchService,
                     g\<lparr>pytorch_inference_service :=
                          Some \<lparr>pt_model_path = mp, pt_icbhi_path = ip, pt_model = None,
                                pt_classifier = None, pt_model_info = None\<rparr>\<rparr>))))"

definition get_inference_service ::
  "settings_object \<Rightarrow> app_globals \<Rightarrow> (exn + service_ref) \<times> app_globals" where
  "get_inference_service settings g =
     (case read_attr ''model_type'' (attr_model_type settings) of
        Inl e \<Rightarrow> (Inl e, g)
      | Inr model_type \<Rightarrow>
          (if lower model_type = ''pytorch''
           then get_pytorch_inference_service settings g
           else (Inr OnnxService, g)))"

section \<open>utils/audio.py: the features\<close>

definition np_mean :: "real list \<Rightarrow> real" where
  "np_mean xs = sum_list xs / real (length xs)"

definition np_std :: "real list \<Rightarrow> real" where
  "np_std xs = sqrt (np_mean (map (\<lambda>x. (x - np_mean xs)\<^sup>2) xs))"

text \<open>
  \<^verbatim>\<open>extract_mel_spectrogram\<close>: the mel-spectrogram in decibels is computed by librosa
  (a parameter), the normalisation by the function itself.
\<close>

definition extract_mel_spectrogram ::
  "(real list \<Rightarrow> exn + real list list) \<Rightarrow> real list \<Rightarrow> exn + real list list" where
  "extract_mel_spectrogram log_mel_of waveform =
     (case log_mel_of waveform of
        Inl e \<Rightarrow> Inl e
      | Inr log_mel \<Rightarrow>
          (let mean = np_mean (concat log_mel);
               std = np_std (concat log_mel)
           in Inr (map (map (\<lambda>x. (x - mean) / (std + 1 / 1000000))) log_mel)))"

section \<open>services/storage.py\<close>






section \<open>routers/audio.py: upload and background processing\<close>

text \<open>
  The state of the application: the files of the upload directory, the collection, the
  tasks handed to the event loop (each a call of \<^verbatim>\<open>_process_prediction\<close> with its
  prediction and its path) and the globals of the services.
\<close>

record app_state =
  files :: "string \<rightharpoonup> nat list"
  predictions :: collection
  tasks :: "(string \<times> string) list"
  globals :: app_globals




text \<open>What the background task asks of the libraries.\<close>

record world =
  w_torch :: torch_env
  w_onnx :: onnx_env
  w_librosa :: librosa_load
  w_log_mel :: "real list \<Rightarrow> exn + real list list"

text \<open>
  The call \<^verbatim>\<open>inference_service.predict(x)\<close> on the object that
  \<^verbatim>\<open>get_inference_service\<close> returned, which is one of the two globals.
\<close>

definition service_predict ::
  "world \<Rightarrow> service_ref \<Rightarrow> ndarray \<Rightarrow> app_globals \<Rightarrow> (exn + prediction_result) \<times> app_globals" where
  "service_predict w svc x g =
     (case svc of
        OnnxService \<Rightarrow>
          (case AudioInferenceService_predict (w_onnx w) (inference_service g) x of
             (r, svc') \<Rightarrow> (r, g\<lparr>inference_service := svc'\<rparr>))
      | PyTorchService \<Rightarrow>
          (case pytorch_inference_service g of
             None \<Rightarrow>
               (Inl (Exc AttributeError
                       ([CHR 0x27] @ ''NoneType'' @ [CHR 0x27]
                        @ '' object has no attribute '' @ [CHR 0x27] @ ''predict''
                        @ [CHR 0x27])), g)
           | Some p \<Rightarrow>
               (case PyTorchAudioInferenceService_predict (w_torch w) (sys_path g) p x of
                  (r, p', sp) \<Rightarrow>
                    (r, g\<lparr>pytorch_inference_service := Some p', sys_path := sp\<rparr>))))"

text \<open>
  The statements of the \<^verbatim>\<open>try\<close> in \<^verbatim>\<open>_process_prediction\<close> up to the result of
  \<^verbatim>\<open>predict\<close>: the choice of the service, the waveform, the second reading of
  \<^verbatim>\<open>settings.model_type\<close>, the features for the ONNX backend, the prediction.
\<close>

definition run_inference ::
  "world \<Rightarrow> settings_object \<Rightarrow> string \<Rightarrow> app_globals \<Rightarrow> (exn + prediction_result) \<times> app_globals" where
  "run_inference w settings audio_path g =
     (case get_inference_service settings g of
        (Inl e, g1) \<Rightarrow> (Inl e, g1)
      | (Inr svc, g1) \<Rightarrow>
          (case load_waveform (w_librosa w) audio_path DEFAULT_SAMPLE_RATE of
             Inl e \<Rightarrow> (Inl e, g1)
           | Inr waveform \<Rightarrow>
               (case read_attr ''model_type'' (attr_model_type settings) of
                  Inl e \<Rightarrow> (Inl e, g1)
                | Inr model_type \<Rightarrow>
                    (if lower model_type = ''pytorch''
                     then service_predict w svc (Array1 waveform) g1
                     else (case extract_mel_spectrogram (w_log_mel w) waveform of
                             Inl e \<Rightarrow> (Inl e, g1)
                           | Inr features \<Rightarrow> service_predict w svc (Array2 features) g1)))))"

text \<open>
  \<^verbatim>\<open>_process_prediction\<close>. The update to \<^verbatim>\<open>COMPLETED\<close> is inside the \<^verbatim>\<open>try\<close>; the
  handler stores \<^verbatim>\<open>FAILED\<close> with the text of the exception, and an exception of the
  handler's own update leaves the coroutine. The \<^verbatim>\<open>finally\<close> only yields to the event
  loop; the line that would delete the file is a comment.
\<close>

definition process_prediction ::
  "world \<Rightarrow> settings_object \<Rightarrow> datetime \<Rightarrow> string \<Rightarrow> string \<Rightarrow> app_state
   \<Rightarrow> exn option \<times> app_state" where
  "process_prediction w settings now pid audio_path st =
     (case (case run_inference w settings audio_path (globals st) of
              (Inl e, g) \<Rightarrow> (Some e, st\<lparr>globals := g\<rparr>)
            | (Inr result, g) \<Rightarrow>
                (case update_status now (predictions st) pid COMPLETED
                        (Some (result_label result)) (Some (result_confidence result))
                        (Some (result_probabilities result)) None of
                   (Inl e, coll) \<Rightarrow> (Some e, st\<lparr>globals := g, predictions := coll\<rparr>)
                 | (Inr updated, coll) \<Rightarrow> (None, st\<lparr>globals := g, predictions := coll\<rparr>))) of
        (None, st1) \<Rightarrow> (None, st1)
      | (Some exc, st1) \<Rightarrow>
          (case update_status now (predictions st1) pid FAILED None None None
                  (Some (str_exc exc)) of
             (Inl e, coll) \<Rightarrow> (Some e, st1\<lparr>predictions := coll\<rparr>)
           | (Inr updated, coll) \<Rightarrow> (None, st1\<lparr>predictions := coll\<rparr>)))"

section \<open>The lazy load under the event loop\<close>

text \<open>
  Both services load in the same way: \<^verbatim>\<open>predict\<close> calls \<^verbatim>\<open>load\<close> when the loaded
  object (\<^verbatim>\<open>_session\<close>, or \<^verbatim>\<open>_model\<close>) is \<^verbatim>\<open>None\<close>; \<^verbatim>\<open>load\<close> takes the lock, looks
  at the object again and, when it is still \<^verbatim>\<open>None\<close>, constructs and assigns it; leaving
  the \<^verbatim>\<open>async with\<close> gives the lock back. Tasks of the event loop are numbered, and each
  is at one of these places. The constructor returns an object, or raises, or (in the
  PyTorch service, where the modules are assigned before they are moved to the device)
  raises after the assignment. The list \<open>created\<close> is a history of the objects
  assigned; it is not a field of the services.

  The event loop switches tasks only at an \<^verbatim>\<open>await\<close>. The steps here are finer: a switch
  is allowed between any two of them, which covers every schedule of the event loop.
\<close>

datatype pc = Idle | Waiting | Holding | Constructing

datatype 'a construct = Returns 'a | Raises exn | Assigns_then_raises 'a exn

datatype 'a action = Call_load | Call_predict | Acquire | Check | Construct "'a construct"

record 'a lazy_service =
  loaded :: "'a option"
  lock :: "nat option"
  pc_of :: "nat \<Rightarrow> pc"
  created :: "'a list"

definition lazy_init :: "'a lazy_service" where
  "lazy_init = \<lparr>loaded = None, lock = None, pc_of = (\<lambda>t. Idle), created = []\<rparr>"

definition move_to :: "nat \<Rightarrow> pc \<Rightarrow> 'a lazy_service \<Rightarrow> 'a lazy_service" where
  "move_to t p s = s\<lparr>pc_of := (pc_of s)(t := p)\<rparr>"

text \<open>A step of task \<open>t\<close>; an action that does not fit the place of the task does nothing.\<close>

fun lazy_act :: "'a action \<Rightarrow> pc \<Rightarrow> nat \<Rightarrow> 'a lazy_service \<Rightarrow> 'a lazy_service" where
  "lazy_act Call_load Idle t s = move_to t Waiting s"
| "lazy_act Call_predict Idle t s =
     (if loaded s = None then move_to t Waiting s else s)"
| "lazy_act Acquire Waiting t s =
     (if lock s = None then move_to t Holding (s\<lparr>lock := Some t\<rparr>) else s)"
| "lazy_act Check Holding t s =
     (if loaded s = None then move_to t Constructing s else move_to t Idle (s\<lparr>lock := None\<rparr>))"
| "lazy_act (Construct (Returns v)) Constructing t s =
     move_to t Idle (s\<lparr>loaded := Some v, created := created s @ [v], lock := None\<rparr>)"
| "lazy_act (Construct (Assigns_then_raises v e)) Constructing t s =
     move_to t Idle (s\<lparr>loaded := Some v, created := created s @ [v], lock := None\<rparr>)"
| "lazy_act (Construct (Raises e)) Constructing t s = move_to t Idle (s\<lparr>lock := None\<rparr>)"
| "lazy_act a p t s = s"

definition lazy_step :: "nat \<times> 'a action \<Rightarrow> 'a lazy_service \<Rightarrow> 'a lazy_service" where
  "lazy_step ev s = lazy_act (snd ev) (pc_of s (fst ev)) (fst ev) s"

definition lazy_run :: "(nat \<times> 'a action) list \<Rightarrow> 'a lazy_service \<Rightarrow> 'a lazy_service" where
  "lazy_run schedule s = fold lazy_step schedule s"

text \<open>
  What holds in every state the tasks can reach: a task inside the lock is its holder, a
  task about to construct has seen \<^verbatim>\<open>None\<close> and the object is still \<^verbatim>\<open>None\<close>, and the
  history has the loaded object and nothing else.
\<close>

definition lazy_inv :: "'a lazy_service \<Rightarrow> bool" where
  "lazy_inv s =
     ((\<forall>t. pc_of s t = Holding \<or> pc_of s t = Constructing \<longrightarrow> lock s = Some t)
      \<and> (\<forall>t. pc_of s t = Constructing \<longrightarrow> loaded s = None)
      \<and> created s = (case loaded s of None \<Rightarrow> [] | Some v \<Rightarrow> [v]))"

text \<open>
  The outcome of the constructor of each service, read off the body of its \<^verbatim>\<open>load\<close>:
  \<^verbatim>\<open>ort.InferenceSession\<close> for the ONNX service; for the PyTorch service the body of
  the \<^verbatim>\<open>try\<close>, which assigns \<^verbatim>\<open>_model\<close> once \<^verbatim>\<open>load_model_with_wrapper\<close> has
  returned and can still raise while the modules are moved to the device, every
  exception being raised again as a \<^verbatim>\<open>RuntimeError\<close>.
\<close>

definition onnx_construct :: "onnx_env \<Rightarrow> AudioInferenceService \<Rightarrow> ort_session construct" where
  "onnx_construct env svc =
     (case create_session env (onnx_model_path svc) of
        None \<Rightarrow> Returns (InferenceSession (onnx_model_path svc))
      | Some e \<Rightarrow> Raises e)"

definition load_error :: "PyTorchAudioInferenceService \<Rightarrow> exn \<Rightarrow> exn" where
  "load_error svc e =
     Exc RuntimeError (load_failed_message (pt_model_path svc) (pt_icbhi_path svc) e)"

definition pytorch_construct ::
  "torch_env \<Rightarrow> string list \<Rightarrow> PyTorchAudioInferenceService \<Rightarrow> module construct" where
  "pytorch_construct env sp svc =
     (case get_model_info env (pt_model_path svc) of
        Inl e \<Rightarrow> Raises (load_error svc e)
      | Inr info \<Rightarrow>
          (case load_model_with_wrapper env sp (pt_model_path svc) (pt_icbhi_path svc) True of
             (Inl e, sp') \<Rightarrow> Raises (load_error svc e)
           | (Inr (m, c), sp') \<Rightarrow>
               (case to_device env m of
                  Some e \<Rightarrow> Assigns_then_raises m (load_error svc e)
                | None \<Rightarrow>
                    (case to_device env c of
                       Some e \<Rightarrow> Assigns_then_raises m (load_error svc e)
                     | None \<Rightarrow> Returns m))))"

text \<open>The tasks before any of them has called a service whose object is \<open>x\<close>.\<close>

definition lazy_of :: "'a option \<Rightarrow> 'a lazy_service" where
  "lazy_of x =
     \<lparr>loaded = x, lock = None, pc_of = (\<lambda>t. Idle),
      created = (case x of None \<Rightarrow> [] | Some v \<Rightarrow> [v])\<rparr>"

section \<open>Example inputs\<close>

text \<open>
  A checkpoint of an hftt model with four classes, and a world in which the training
  repository is present and every step of the loader goes through.
\<close>

definition sample_checkpoint :: checkpoint where
  "sample_checkpoint =
     \<lparr>ck_args = Some \<lparr>args_model = Some ''hftt'', args_nospec = Some True,
                      args_n_cls = Some 4\<rparr>,
      ck_model = Some (StateDict 0),
      ck_classifier = Some (AsList [StateDict 1])\<rparr>"

definition sample_env :: torch_env where
  "sample_env =
     \<lparr>torch_load = (\<lambda>p. Inr (CheckpointDict sample_checkpoint)),
      path_exists = (\<lambda>p. p = ''/ICBHI_2017''),
      absolute = (\<lambda>p. p),
      getcwd = Inr ''/app'',
      chdir = (\<lambda>p. None),
      import_get_backbone_class = None,
      import_SpecAugment = (\<lambda>a. None),
      construct_backbone = (\<lambda>name kwargs. None),
      load_state_dict = (\<lambda>m s. None),
      final_feat_dim = (\<lambda>m. Inr 768),
      to_device = (\<lambda>m. None),
      forward_model = (\<lambda>m x. Inr (Tensor3 [[1, 2]])),
      forward_classifier = (\<lambda>m t. Inr [0, 2, 1, 0])\<rparr>"

text \<open>
  A state with one uploaded recording awaiting its prediction, a world in which the
  libraries go through, and a settings object that names the ONNX backend.
\<close>

definition sample_document :: document where
  "sample_document =
     \<lparr>filename = ''a.wav'', content_type = ''audio/wav'', file_size = 3,
      storage_path = ''/tmp/copd/uploads/a.wav'', user_id = None, status = PENDING,
      created_at = 1, updated_at = 1, label = None, confidence = None,
      probabilities = None, notes' = None\<rparr>"

definition sample_state :: app_state where
  "sample_state =
     \<lparr>files = [''/tmp/copd/uploads/a.wav'' \<mapsto> [1, 2, 3]],
      predictions = [Oid [0, 0, 0, 0, 0, 0, 0, 0, 0, 0, 0, 0] \<mapsto> sample_document],
      tasks = [],
      globals = \<lparr>inference_service =
                   \<lparr>onnx_model_path = ''models/audio_classifier.onnx'', session = None\<rparr>,
                 pytorch_inference_service = None,
                 sys_path = []\<rparr>\<rparr>"

definition sample_world :: world where
  "sample_world =
     \<lparr>w_torch = sample_env,
      w_onnx = \<lparr>create_session = (\<lambda>p. None), run_session = (\<lambda>s x. Inr [0, 0, 0, 0])\<rparr>,
      w_librosa = (\<lambda>p r. Inr [1, 2, 3]),
      w_log_mel = (\<lambda>x. Inr [[0, 0]])\<rparr>"

definition onnx_settings :: settings_object where
  "onnx_settings =
     \<lparr>attr_model_path = Some ''models/audio_classifier.onnx'',
      attr_model_type = Some ''ONNX'',
      attr_icbhi_path = Some None\<rparr>"


section \<open>Properties of utils/audio.py\<close>

text \<open>
  C8. Whenever the decoder accepts the file (at a sample rate that is not negative, the
  only rates a decoder resamples to), \<^verbatim>\<open>load_waveform\<close> returns exactly
  \<open>sample_rate * 5\<close> samples: a shorter recording followed by zeros up to that length,
  a longer one cut to its first \<open>sample_rate * 5\<close> samples.
\<close>

theorem load_waveform_length:
  assumes "librosa path sample_rate = Inr decoded"
    and "0 \<le> sample_rate"
  shows "\<exists>w. load_waveform librosa path sample_rate = Inr w
           \<and> int (length w) = sample_rate * 5
           \<and> (if int (length decoded) < sample_rate * 5
               then w = decoded @ replicate (nat (sample_rate * 5) - length decoded) 0
               else w = take (nat (sample_rate * 5)) decoded)"
  using assms
  by (auto simp: load_waveform_def DEFAULT_DURATION_SEC_def np_pad_end_def slice_to_def
      Let_def nat_diff_distrib')

theorem load_waveform_length_witness:
  "(\<lambda>p r. Inr [1, 2, 3]) ''a.wav'' (1::int) = (Inr [1, 2, 3] :: exn + real list)
   \<and> (0::int) \<le> 1
   \<and> load_waveform (\<lambda>p r. Inr [1, 2, 3]) ''a.wav'' 1 = Inr [1, 2, 3, 0, 0]"
  using load_waveform_length [of "\<lambda>p r. Inr [1, 2, 3]" "''a.wav''" 1 "[1, 2, 3]"]
  by (simp add: numeral_eq_Suc)

section \<open>Properties of repositories/predictions.py\<close>

lemma ObjectId_error_class: "ObjectId s = Inl e \<Longrightarrow> exc_class_of e = InvalidId"
  by (auto simp: ObjectId_def split: if_splits option.splits)

lemma truncate_normalize: "document.truncate (normalize i d) = d"
  by (simp add: normalize_def document.truncate_def document.extend_def Prediction.fields_def)

lemma prediction_id_normalize: "prediction_id (normalize i d) = str_oid i"
  by (simp add: normalize_def document.extend_def Prediction.fields_def)

text \<open>
  C9. \<^verbatim>\<open>PredictionRepository.get\<close> returns \<^verbatim>\<open>None\<close>, without raising, for every
  string that \<^verbatim>\<open>ObjectId\<close> rejects and for every accepted one that has no document;
  the GET endpoint answers every \<^verbatim>\<open>None\<close> with the HTTP error 404 and otherwise returns
  the stored document as it is, with its identifier as a string.
\<close>

theorem get_none_or_stored:
  "(\<forall>e. ObjectId pid = Inl e \<longrightarrow> PredictionRepository_get coll pid = Inr None)
   \<and> (\<forall>i. ObjectId pid = Inr i \<and> coll i = None
         \<longrightarrow> PredictionRepository_get coll pid = Inr None)
   \<and> (PredictionRepository_get coll pid = Inr None
         \<longrightarrow> get_prediction coll pid = Inl (HTTPException 404 ''Prediction not found''))
   \<and> (\<forall>i d. ObjectId pid = Inr i \<and> coll i = Some d
         \<longrightarrow> get_prediction coll pid = Inr (normalize i d)
             \<and> document.truncate (normalize i d) = d
             \<and> prediction_id (normalize i d) = str_oid i)"
  by (auto simp: PredictionRepository_get_def get_prediction_def truncate_normalize
      prediction_id_normalize dest: ObjectId_error_class)

theorem get_none_or_stored_witness:
  "PredictionRepository_get Map.empty ''abc'' = Inr None
   \<and> get_prediction Map.empty ''abc'' = Inl (HTTPException 404 ''Prediction not found'')
   \<and> PredictionRepository_get Map.empty ''0123456789abcdefABCDEF00'' = Inr None
   \<and> get_prediction
        [Oid [1, 35, 69, 103, 137, 171, 205, 239, 171, 205, 239, 0] \<mapsto>
           \<lparr>filename = ''a.wav'', content_type = ''audio/wav'', file_size = 3,
            storage_path = ''/tmp/a.wav'', user_id = None, status = PENDING, created_at = 1,
            updated_at = 1, label = None, confidence = None, probabilities = None,
            notes' = None\<rparr>]
        ''0123456789abcdefABCDEF00''
       = Inr \<lparr>filename = ''a.wav'', content_type = ''audio/wav'', file_size = 3,
            storage_path = ''/tmp/a.wav'', user_id = None, status = PENDING, created_at = 1,
            updated_at = 1, label = None, confidence = None, probabilities = None,
            notes' = None, prediction_id = ''0123456789abcdefabcdef00''\<rparr>"
  using get_none_or_stored [of "''abc''" Map.empty]
    get_none_or_stored [of "''0123456789abcdefABCDEF00''" Map.empty]
    get_none_or_stored [of "''0123456789abcdefABCDEF00''"
      "[Oid [1, 35, 69, 103, 137, 171, 205, 239, 171, 205, 239, 0] \<mapsto>
           \<lparr>filename = ''a.wav'', content_type = ''audio/wav'', file_size = 3,
            storage_path = ''/tmp/a.wav'', user_id = None, status = PENDING, created_at = 1,
            updated_at = 1, label = None, confidence = None, probabilities = None,
            notes' = None\<rparr>]"]
  by (simp add: ObjectId_def hex_val_def hex_digits_def is_space_def hex_byte_def
      normalize_def document.extend_def Prediction.fields_def)

text \<open>
  The frame of \<^verbatim>\<open>update_status\<close> on an identifier that \<^verbatim>\<open>ObjectId\<close> accepts:
  only the status, the time of update and the optional fields that are passed change.
\<close>

lemma update_status_frame:
  assumes "ObjectId pid = Inr i" and "coll i = Some d"
  shows "\<exists>d'. update_status now coll pid st lbl conf probs nts
               = (Inr (Some (normalize i d')), coll(i \<mapsto> d'))
     \<and> status d' = st \<and> updated_at d' = now
     \<and> label d' = (case lbl of None \<Rightarrow> label d | Some v \<Rightarrow> Some v)
     \<and> confidence d' = (case conf of None \<Rightarrow> confidence d | Some v \<Rightarrow> Some v)
     \<and> probabilities d' = (case probs of None \<Rightarrow> probabilities d | Some v \<Rightarrow> Some v)
     \<and> notes' d' = (case nts of None \<Rightarrow> notes' d | Some v \<Rightarrow> Some v)
     \<and> filename d' = filename d \<and> content_type d' = content_type d
     \<and> file_size d' = file_size d \<and> storage_path d' = storage_path d
     \<and> created_at d' = created_at d \<and> user_id d' = user_id d"
  using assms
  by (auto simp: update_status_def find_one_and_update_def optional_set_def Let_def
      split: option.splits)

lemma update_status_missing:
  assumes "ObjectId pid = Inr i" and "coll i = None"
  shows "update_status now coll pid st lbl conf probs nts = (Inr None, coll)"
  using assms
  by (auto simp: update_status_def find_one_and_update_def Let_def)

text \<open>
  C10. On the identifier of a prediction (a string that \<^verbatim>\<open>ObjectId\<close> accepts, as every
  identifier that \<^verbatim>\<open>create\<close> returns is), \<^verbatim>\<open>update_status\<close> changes one document
  only, and in it only the status, the time of update and those of the label, the
  confidence, the probabilities and the notes that are passed; the file name, the
  content type, the size, the path, the time of creation and the user stay. When the
  collection has no document with that identifier it returns \<^verbatim>\<open>None\<close> and the
  collection is as it was.
\<close>

theorem update_status_frame_effect:
  assumes "ObjectId pid = Inr i"
  shows "(\<forall>d. coll i = Some d \<longrightarrow>
            (\<exists>d'. update_status now coll pid st lbl conf probs nts
                     = (Inr (Some (normalize i d')), coll(i \<mapsto> d'))
               \<and> status d' = st \<and> updated_at d' = now
               \<and> label d' = (case lbl of None \<Rightarrow> label d | Some v \<Rightarrow> Some v)
               \<and> confidence d' = (case conf of None \<Rightarrow> confidence d | Some v \<Rightarrow> Some v)
               \<and> probabilities d'
                   = (case probs of None \<Rightarrow> probabilities d | Some v \<Rightarrow> Some v)
               \<and> notes' d' = (case nts of None \<Rightarrow> notes' d | Some v \<Rightarrow> Some v)
               \<and> filename d' = filename d \<and> content_type d' = content_type d
               \<and> file_size d' = file_size d \<and> storage_path d' = storage_path d
               \<and> created_at d' = created_at d \<and> user_id d' = user_id d))
     \<and> (coll i = None \<longrightarrow>
            update_status now coll pid st lbl conf probs nts = (Inr None, coll))"
  using update_status_frame [OF assms] update_status_missing [OF assms]
  by blast

theorem update_status_frame_effect_witness:
  "ObjectId ''000000000000000000000000'' = Inr (Oid [0, 0, 0, 0, 0, 0, 0, 0, 0, 0, 0, 0])
   \<and> (\<exists>d'. update_status 9 [Oid [0, 0, 0, 0, 0, 0, 0, 0, 0, 0, 0, 0] \<mapsto> sample_document]
               ''000000000000000000000000'' FAILED None None None (Some ''boom'')
             = (Inr (Some (normalize (Oid [0, 0, 0, 0, 0, 0, 0, 0, 0, 0, 0, 0]) d')),
                [Oid [0, 0, 0, 0, 0, 0, 0, 0, 0, 0, 0, 0] \<mapsto> d'])
        \<and> status d' = FAILED \<and> updated_at d' = 9 \<and> notes' d' = Some ''boom''
        \<and> label d' = None \<and> confidence d' = None \<and> probabilities d' = None
        \<and> filename d' = ''a.wav'' \<and> content_type d' = ''audio/wav'' \<and> file_size d' = 3
        \<and> storage_path d' = ''/tmp/copd/uploads/a.wav'' \<and> created_at d' = 1
        \<and> user_id d' = None)
   \<and> update_status 9 Map.empty ''000000000000000000000000'' COMPLETED (Some CRACKLE)
         (Some (1 / 4)) None None
       = (Inr None, Map.empty)"
proof -
  let ?i = "Oid [0, 0, 0, 0, 0, 0, 0, 0, 0, 0, 0, 0]"
  have o: "ObjectId ''000000000000000000000000'' = Inr ?i"
    by (simp add: ObjectId_def hex_val_def hex_digits_def is_space_def)
  have c: "[?i \<mapsto> sample_document] ?i = Some sample_document"
    by simp
  from update_status_frame_effect [OF o, of "[?i \<mapsto> sample_document]" 9 FAILED None None
      None "Some ''boom''", THEN conjunct1, rule_format, OF c]
  obtain d' where u: "update_status 9 [?i \<mapsto> sample_document]
               ''000000000000000000000000'' FAILED None None None (Some ''boom'')
             = (Inr (Some (normalize ?i d')), [?i \<mapsto> sample_document](?i \<mapsto> d'))"
    and f: "status d' = FAILED" "updated_at d' = 9" "notes' d' = Some ''boom''"
      "label d' = label sample_document" "confidence d' = confidence sample_document"
      "probabilities d' = probabilities sample_document"
      "filename d' = filename sample_document"
      "content_type d' = content_type sample_document"
      "file_size d' = file_size sample_document"
      "storage_path d' = storage_path sample_document"
      "created_at d' = created_at sample_document" "user_id d' = user_id sample_document"
    by auto
  have a: "\<exists>d'. update_status 9 [?i \<mapsto> sample_document]
               ''000000000000000000000000'' FAILED None None None (Some ''boom'')
             = (Inr (Some (normalize ?i d')), [?i \<mapsto> d'])
        \<and> status d' = FAILED \<and> updated_at d' = 9 \<and> notes' d' = Some ''boom''
        \<and> label d' = None \<and> confidence d' = None \<and> probabilities d' = None
        \<and> filename d' = ''a.wav'' \<and> content_type d' = ''audio/wav'' \<and> file_size d' = 3
        \<and> storage_path d' = ''/tmp/copd/uploads/a.wav'' \<and> created_at d' = 1
        \<and> user_id d' = None"
    using u f by (intro exI [of _ d']) (simp add: sample_document_def)
  have b: "update_status 9 Map.empty ''000000000000000000000000'' COMPLETED (Some CRACKLE)
         (Some (1 / 4)) None None = (Inr None, Map.empty)"
    using update_status_frame_effect [OF o, of Map.empty 9 COMPLETED "Some CRACKLE"
        "Some (1 / 4)" None None, THEN conjunct2]
    by simp
  from o a b show ?thesis by blast
qed

text \<open>
  A string that is not an ObjectId is no identifier of a prediction; on one
  \<^verbatim>\<open>update_status\<close> raises \<^verbatim>\<open>InvalidId\<close> and leaves the collection as it was, where
  \<^verbatim>\<open>get\<close> returns \<^verbatim>\<open>None\<close>.
\<close>

lemma update_status_invalid_id:
  "update_status now coll ''not-an-id'' st lbl conf probs nts
     = (Inl (Exc InvalidId (invalid_id_message ''not-an-id'')), coll)
   \<and> PredictionRepository_get coll ''not-an-id'' = Inr None"
  by (simp add: update_status_def ObjectId_def PredictionRepository_get_def)

section \<open>Properties of the inference results\<close>

lemma softmax_length: "softmax ls = Inr p \<Longrightarrow> length p = length ls \<and> ls \<noteq> []"
  by (auto simp: softmax_def Let_def split: if_splits)

lemma softmax_total: "ls \<noteq> [] \<Longrightarrow> \<exists>p. softmax ls = Inr p"
  by (simp add: softmax_def Let_def)

lemma softmax_map:
  assumes "softmax ls = Inr p"
  shows "\<exists>m s. 0 < s \<and> p = map (\<lambda>x. exp (x - m) / s) ls"
proof -
  from assms have ne: "ls \<noteq> []" by (simp add: softmax_length)
  define m where "m = Max (set ls)"
  define s where "s = sum_list (map (\<lambda>x. exp (x - m)) ls)"
  have nonneg: "0 \<le> sum_list (map (\<lambda>x. exp (x - m)) xs)" for xs
    by (rule sum_list_nonneg) auto
  have "0 < s"
  proof (cases ls)
    case Nil
    with ne show ?thesis by simp
  next
    case (Cons a xs)
    have "0 < exp (a - m) + sum_list (map (\<lambda>x. exp (x - m)) xs)"
      by (rule add_pos_nonneg) (simp_all add: nonneg)
    then show ?thesis by (simp add: s_def Cons)
  qed
  moreover have "p = map (\<lambda>x. exp (x - m) / s) ls"
    using assms ne by (simp add: softmax_def Let_def m_def s_def comp_def)
  ultimately show ?thesis by blast
qed

lemma softmax_nth_eq_iff:
  assumes "softmax ls = Inr p" and "i < length ls" and "j < length ls"
  shows "(p ! i = p ! j) = (ls ! i = ls ! j)"
proof -
  from softmax_map [OF assms(1)] obtain m s where s: "0 < s"
    and p: "p = map (\<lambda>x. exp (x - m) / s) ls" by blast
  show ?thesis using s assms(2,3) by (simp add: p)
qed

lemma argmax_map_strict_mono:
  assumes "strict_mono f" and "xs \<noteq> []"
  shows "argmax (map f xs) = argmax (xs :: real list)"
proof -
  have "mono f" using assms(1) by (rule strict_mono_mono)
  then have M: "Max (f ` set xs) = f (Max (set xs))"
    using assms(2) by (simp add: mono_Max_commute)
  have inj: "\<And>x y. (f x = f y) = (x = y)"
    using assms(1) by (simp add: strict_mono_eq)
  show ?thesis
    by (simp add: argmax_def M takeWhile_map comp_def inj)
qed

lemma argmax_softmax:
  assumes "softmax ls = Inr p"
  shows "argmax p = argmax ls"
proof -
  from softmax_map [OF assms] obtain m s where s: "0 < s"
    and p: "p = map (\<lambda>x. exp (x - m) / s) ls" by blast
  have "strict_mono (\<lambda>x::real. exp (x - m) / s)"
    using s by (simp add: strict_mono_def divide_strict_right_mono)
  moreover have "ls \<noteq> []" using assms by (simp add: softmax_length)
  ultimately show ?thesis unfolding p by (rule argmax_map_strict_mono)
qed

lemma argmax_less: "xs \<noteq> [] \<Longrightarrow> argmax xs < length xs"
proof -
  assume "xs \<noteq> []"
  then have "Max (set xs) \<in> set xs" by (intro Max_in) auto
  then have "takeWhile (\<lambda>x. x \<noteq> Max (set xs)) xs \<noteq> xs"
    by (metis (mono_tags, lifting) takeWhile_eq_all_conv)
  moreover have "length (takeWhile (\<lambda>x. x \<noteq> Max (set xs)) xs) \<le> length xs"
    by (rule length_takeWhile_le)
  ultimately show ?thesis unfolding argmax_def
    by (metis takeWhile_eq_take take_all_iff linorder_not_less)
qed

lemma onnx_prob_dict_Inr:
  "onnx_prob_dict p (enumerate 0 Label_members) Map.empty = Inr d
   \<Longrightarrow> 4 \<le> length p
     \<and> d = [''crackle'' \<mapsto> p ! 0, ''wheeze'' \<mapsto> p ! 1, ''both'' \<mapsto> p ! 2, ''none'' \<mapsto> p ! 3]"
  by (auto simp: Label_members_def py_index_def numeral_eq_Suc split: if_splits)

lemma onnx_prob_dict_four:
  "4 \<le> length p \<Longrightarrow> onnx_prob_dict p (enumerate 0 Label_members) Map.empty
     = Inr [''crackle'' \<mapsto> p ! 0, ''wheeze'' \<mapsto> p ! 1, ''both'' \<mapsto> p ! 2, ''none'' \<mapsto> p ! 3]"
  by (auto simp: Label_members_def py_index_def numeral_eq_Suc)

lemma pytorch_prob_dict_Inr:
  "pytorch_prob_dict p Label_members Map.empty = Inr d
   \<Longrightarrow> 4 \<le> length p
     \<and> d = [''crackle'' \<mapsto> p ! 1, ''wheeze'' \<mapsto> p ! 2, ''both'' \<mapsto> p ! 3, ''none'' \<mapsto> p ! 0]"
  by (auto simp: Label_members_def py_index_def label_mapping_def numeral_eq_Suc
      split: if_splits)

lemma pytorch_prob_dict_four:
  "4 \<le> length p \<Longrightarrow> pytorch_prob_dict p Label_members Map.empty
     = Inr [''crackle'' \<mapsto> p ! 1, ''wheeze'' \<mapsto> p ! 2, ''both'' \<mapsto> p ! 3, ''none'' \<mapsto> p ! 0]"
  by (auto simp: Label_members_def py_index_def label_mapping_def numeral_eq_Suc)

lemma onnx_result_Inr:
  assumes "onnx_result ls = Inr r"
  shows "\<exists>p. softmax ls = Inr p \<and> 4 \<le> length p \<and> argmax p < 4
     \<and> r = \<lparr>result_label = Label_members ! argmax p, result_confidence = p ! argmax p,
            result_probabilities =
              [''crackle'' \<mapsto> p ! 0, ''wheeze'' \<mapsto> p ! 1, ''both'' \<mapsto> p ! 2, ''none'' \<mapsto> p ! 3]\<rparr>"
  using assms
  by (auto simp: onnx_result_def Let_def py_index_def [of Label_members]
      py_index_def [of _ "argmax _"] Label_members_def [THEN arg_cong, of length]
      split: sum.splits if_splits dest!: onnx_prob_dict_Inr)

lemma pytorch_result_Inr:
  assumes "pytorch_result ls = Inr r"
  shows "\<exists>p. softmax ls = Inr p \<and> 4 \<le> length p
     \<and> r = \<lparr>result_label = (case map_of label_mapping (argmax p) of Some m \<Rightarrow> m | None \<Rightarrow> NONE),
            result_confidence = p ! argmax p,
            result_probabilities =
              [''crackle'' \<mapsto> p ! 1, ''wheeze'' \<mapsto> p ! 2, ''both'' \<mapsto> p ! 3, ''none'' \<mapsto> p ! 0]\<rparr>"
  using assms
  by (auto simp: pytorch_result_def Let_def py_index_def [of _ "argmax _"]
      split: sum.splits if_splits dest!: pytorch_prob_dict_Inr)

lemma onnx_result_four:
  assumes "softmax ls = Inr p" and "4 \<le> length p" and "argmax p < 4"
  shows "onnx_result ls = Inr \<lparr>result_label = Label_members ! argmax p,
            result_confidence = p ! argmax p,
            result_probabilities =
              [''crackle'' \<mapsto> p ! 0, ''wheeze'' \<mapsto> p ! 1, ''both'' \<mapsto> p ! 2, ''none'' \<mapsto> p ! 3]\<rparr>"
  using assms
  by (simp add: onnx_result_def Let_def py_index_def [of Label_members]
      py_index_def [of _ "argmax _"] Label_members_def [THEN arg_cong, of length]
      onnx_prob_dict_four)

lemma pytorch_result_four:
  assumes "softmax ls = Inr p" and "4 \<le> length p"
  shows "pytorch_result ls = Inr \<lparr>result_label = (case map_of label_mapping (argmax p) of Some m \<Rightarrow> m | None \<Rightarrow> NONE),
            result_confidence = p ! argmax p,
            result_probabilities =
              [''crackle'' \<mapsto> p ! 1, ''wheeze'' \<mapsto> p ! 2, ''both'' \<mapsto> p ! 3, ''none'' \<mapsto> p ! 0]\<rparr>"
proof -
  have "p \<noteq> []" using assms(2) by auto
  then have "argmax p < length p" by (rule argmax_less)
  then show ?thesis using assms
    by (simp add: pytorch_result_def Let_def py_index_def [of _ "argmax _"]
      pytorch_prob_dict_four)
qed

lemma label_mapping_lookup:
  "k < 4 \<Longrightarrow> (case map_of label_mapping k of Some m \<Rightarrow> m | None \<Rightarrow> NONE) = snd (label_mapping ! k)"
  by (auto simp: label_mapping_def numeral_eq_Suc less_Suc_eq)

lemma index_maps_differ: "k < 4 \<Longrightarrow> Label_members ! k \<noteq> snd (label_mapping ! k)"
  by (auto simp: label_mapping_def Label_members_def numeral_eq_Suc less_Suc_eq)

text \<open>
  C2 (amended). On the same four logits both backends compute the same probability vector
  \<open>p\<close>, the same argmax index and the same confidence, but they do not map an index to the
  same label: the ONNX service uses the order of \<^verbatim>\<open>list(Label)\<close> (crackle, wheeze, both,
  none), the PyTorch service its \<^verbatim>\<open>label_mapping\<close> (none, crackle, wheeze, both). The two
  returned labels are therefore always different, and \<open>p ! i\<close> is reported under
  different label strings.
\<close>

theorem backends_index_maps:
  assumes "length logits = 4"
  shows "\<exists>p r1 r2. softmax logits = Inr p
     \<and> onnx_result logits = Inr r1 \<and> pytorch_result logits = Inr r2
     \<and> result_label r1 = Label_members ! argmax p
     \<and> result_label r2 = snd (label_mapping ! argmax p)
     \<and> result_label r1 \<noteq> result_label r2
     \<and> result_confidence r1 = p ! argmax p \<and> result_confidence r2 = p ! argmax p
     \<and> result_probabilities r1
         = [''crackle'' \<mapsto> p ! 0, ''wheeze'' \<mapsto> p ! 1, ''both'' \<mapsto> p ! 2, ''none'' \<mapsto> p ! 3]
     \<and> result_probabilities r2
         = [''none'' \<mapsto> p ! 0, ''crackle'' \<mapsto> p ! 1, ''wheeze'' \<mapsto> p ! 2, ''both'' \<mapsto> p ! 3]"
proof -
  from assms have ne: "logits \<noteq> []" by auto
  then obtain p where p: "softmax logits = Inr p" using softmax_total by blast
  then have len: "length p = 4" using assms by (simp add: softmax_length)
  have "p \<noteq> []" using len by auto
  then have k: "argmax p < 4" using argmax_less [of p] len by simp
  have len4: "4 \<le> length p" using len by simp
  have maps: "[''crackle'' \<mapsto> p ! 1, ''wheeze'' \<mapsto> p ! 2, ''both'' \<mapsto> p ! 3, ''none'' \<mapsto> p ! 0]
      = [''none'' \<mapsto> p ! 0, ''crackle'' \<mapsto> p ! 1, ''wheeze'' \<mapsto> p ! 2, ''both'' \<mapsto> p ! 3]"
    by (rule ext) simp
  show ?thesis
    using p onnx_result_four [OF p len4 k] pytorch_result_four [OF p len4]
      label_mapping_lookup [OF k] index_maps_differ [OF k] maps
    by simp
qed

theorem backends_index_maps_witness:
  "length [1, 0, 0, 0 :: real] = 4
   \<and> (\<exists>p r1 r2. softmax [1, 0, 0, 0] = Inr p
     \<and> onnx_result [1, 0, 0, 0] = Inr r1 \<and> pytorch_result [1, 0, 0, 0] = Inr r2
     \<and> result_label r1 = Label_members ! argmax p
     \<and> result_label r2 = snd (label_mapping ! argmax p)
     \<and> result_label r1 \<noteq> result_label r2)"
  using backends_index_maps [of "[1, 0, 0, 0]"] by auto

lemma argmax_1000: "argmax [1, 0, 0, 0] = 0"
  by (simp add: argmax_def)

lemma argmax_00001: "argmax [0, 0, 0, 0, 1] = 4"
  by (simp add: argmax_def)

text \<open>
  C2 as stated fails: on the logits \<open>[1, 0, 0, 0]\<close> the ONNX service answers crackle
  and the PyTorch service none, and they give different probabilities to crackle.
\<close>

theorem backends_disagree:
  "\<exists>r1 r2. onnx_result [1, 0, 0, 0] = Inr r1 \<and> pytorch_result [1, 0, 0, 0] = Inr r2
     \<and> result_label r1 = CRACKLE \<and> result_label r2 = NONE
     \<and> result_probabilities r1 ''crackle'' \<noteq> result_probabilities r2 ''crackle''"
proof -
  obtain p where p: "softmax [1, 0, 0, 0] = Inr p" using softmax_total [of "[1, 0, 0, 0]"] by auto
  then have len: "length p = 4" by (simp add: softmax_length)
  have k: "argmax p = 0" using argmax_softmax [OF p] argmax_1000 by simp
  have "p ! 0 \<noteq> p ! 1" using softmax_nth_eq_iff [OF p, of 0 1] by simp
  then show ?thesis
    using onnx_result_four [OF p] pytorch_result_four [OF p] len k
    by (simp add: Label_members_def label_mapping_def)
qed

text \<open>
  C4 (amended). A successful result of either backend has one of the four labels and a
  dictionary whose keys are exactly the four label strings. For the ONNX service the
  confidence is the probability the dictionary gives for the returned label. For the
  PyTorch service the confidence is the probability at the argmax index, which is the
  dictionary's probability for the returned label whenever that index is below four.
\<close>

theorem result_shape:
  "(onnx_result logits = Inr r \<longrightarrow>
       Label_value (result_label r) \<in> {''crackle'', ''wheeze'', ''both'', ''none''}
     \<and> dom (result_probabilities r) = {''crackle'', ''wheeze'', ''both'', ''none''}
     \<and> result_probabilities r (Label_value (result_label r)) = Some (result_confidence r))
   \<and> (pytorch_result logits = Inr r \<longrightarrow>
       Label_value (result_label r) \<in> {''crackle'', ''wheeze'', ''both'', ''none''}
     \<and> dom (result_probabilities r) = {''crackle'', ''wheeze'', ''both'', ''none''}
     \<and> (\<exists>p. softmax logits = Inr p \<and> result_confidence r = p ! argmax p
          \<and> (argmax p < 4 \<longrightarrow>
               result_probabilities r (Label_value (result_label r)) = Some (result_confidence r))))"
proof (intro conjI impI)
  assume "onnx_result logits = Inr r"
  from onnx_result_Inr [OF this] obtain p where k: "argmax p < 4"
    and r: "r = \<lparr>result_label = Label_members ! argmax p, result_confidence = p ! argmax p,
            result_probabilities =
              [''crackle'' \<mapsto> p ! 0, ''wheeze'' \<mapsto> p ! 1, ''both'' \<mapsto> p ! 2, ''none'' \<mapsto> p ! 3]\<rparr>"
    by blast
  show "Label_value (result_label r) \<in> {''crackle'', ''wheeze'', ''both'', ''none''}"
    by (cases "result_label r") simp_all
  show "dom (result_probabilities r) = {''crackle'', ''wheeze'', ''both'', ''none''}"
    by (auto simp: r)
  show "result_probabilities r (Label_value (result_label r)) = Some (result_confidence r)"
    using k by (auto simp: r Label_members_def numeral_eq_Suc less_Suc_eq)
next
  assume "pytorch_result logits = Inr r"
  from pytorch_result_Inr [OF this] obtain p where p: "softmax logits = Inr p"
    and r: "r = \<lparr>result_label = (case map_of label_mapping (argmax p) of Some m \<Rightarrow> m | None \<Rightarrow> NONE),
            result_confidence = p ! argmax p,
            result_probabilities =
              [''crackle'' \<mapsto> p ! 1, ''wheeze'' \<mapsto> p ! 2, ''both'' \<mapsto> p ! 3, ''none'' \<mapsto> p ! 0]\<rparr>"
    by blast
  show "Label_value (result_label r) \<in> {''crackle'', ''wheeze'', ''both'', ''none''}"
    by (cases "result_label r") simp_all
  show "dom (result_probabilities r) = {''crackle'', ''wheeze'', ''both'', ''none''}"
    by (auto simp: r)
  have "argmax p < 4 \<longrightarrow>
      result_probabilities r (Label_value (result_label r)) = Some (result_confidence r)"
    by (auto simp: r label_mapping_def numeral_eq_Suc less_Suc_eq)
  then show "\<exists>p. softmax logits = Inr p \<and> result_confidence r = p ! argmax p
          \<and> (argmax p < 4 \<longrightarrow>
               result_probabilities r (Label_value (result_label r)) = Some (result_confidence r))"
    using p by (auto simp: r)
qed

theorem result_shape_witness:
  "(\<exists>r. onnx_result [1, 0, 0, 0] = Inr r
        \<and> dom (result_probabilities r) = {''crackle'', ''wheeze'', ''both'', ''none''}
        \<and> result_probabilities r (Label_value (result_label r)) = Some (result_confidence r))
   \<and> (\<exists>r. pytorch_result [1, 0, 0, 0] = Inr r
        \<and> dom (result_probabilities r) = {''crackle'', ''wheeze'', ''both'', ''none''}
        \<and> result_probabilities r (Label_value (result_label r)) = Some (result_confidence r))"
proof -
  obtain p where p: "softmax [1, 0, 0, 0] = Inr p"
    using softmax_total [of "[1, 0, 0, 0]"] by auto
  then have len: "length p = 4" by (simp add: softmax_length)
  have k: "argmax p = 0" using argmax_softmax [OF p] argmax_1000 by simp
  obtain r1 where r1: "onnx_result [1, 0, 0, 0] = Inr r1"
    using onnx_result_four [OF p] len k by simp
  obtain r2 where r2: "pytorch_result [1, 0, 0, 0] = Inr r2"
    using pytorch_result_four [OF p] len by simp
  have "argmax q < 4" if "softmax [1, 0, 0, 0] = Inr q" for q
    using that p k by simp
  then show ?thesis
    using result_shape [of "[1, 0, 0, 0]" r1] result_shape [of "[1, 0, 0, 0]" r2] r1 r2
    by auto
qed

text \<open>
  C4 as stated fails for a PyTorch classifier with a fifth output: on the logits
  \<open>[0, 0, 0, 0, 1]\<close> the label falls back to none, the confidence is the probability
  of index 4 and the dictionary gives none the probability of index 0.
\<close>

theorem confidence_mismatch:
  "\<exists>r. pytorch_result [0, 0, 0, 0, 1] = Inr r \<and> result_label r = NONE
     \<and> result_probabilities r (Label_value (result_label r)) \<noteq> Some (result_confidence r)"
proof -
  obtain p where p: "softmax [0, 0, 0, 0, 1] = Inr p"
    using softmax_total [of "[0, 0, 0, 0, 1]"] by auto
  then have len: "length p = 5" by (simp add: softmax_length)
  have k: "argmax p = 4" using argmax_softmax [OF p] argmax_00001 by simp
  have "p ! 0 \<noteq> p ! 4" using softmax_nth_eq_iff [OF p, of 0 4] by simp
  then show ?thesis
    using pytorch_result_four [OF p] len k
    by (simp add: label_mapping_def)
qed

section \<open>Properties of models/hftt_model.py\<close>

lemma icbhi_body_Inr:
  assumes "icbhi_body env ckpt s = Inr mc"
  shows "import_get_backbone_class env = None
     \<and> (\<exists>model sd. build_backbone env ckpt s = Inr model \<and> ck_model ckpt = Some sd
           \<and> load_state_dict env model sd = None \<and> fst mc = with_state model sd)
     \<and> (\<exists>i n cs. classifier_state ckpt = Inr cs
           \<and> load_state_dict env (create_simple_classifier i n) cs = None
           \<and> snd mc = with_state (create_simple_classifier i n) cs)"
  using assms
  by (auto simp: icbhi_body_def split: option.splits sum.splits) blast

lemma icbhi_import_Inr:
  assumes "icbhi_import env ckpt s = Inr mc"
  shows "icbhi_body env ckpt s = Inr mc"
  using assms
  by (auto simp: icbhi_import_def Let_def split: option.splits sum.splits)

text \<open>
  C6 (amended). When \<^verbatim>\<open>torch.load\<close> has read a checkpoint dictionary,
  \<^verbatim>\<open>load_model_with_wrapper\<close> returns a pair only when \<^verbatim>\<open>use_icbhi_import\<close> is true,
  \<^verbatim>\<open>icbhi_path\<close> is given, the directory exists, and the import of the architecture
  and the loading of both states went through; it raises \<^verbatim>\<open>RuntimeError\<close> when the
  path is \<^verbatim>\<open>None\<close> or absent or \<^verbatim>\<open>use_icbhi_import\<close> is false, and it raises
  \<^verbatim>\<open>RuntimeError\<close> for every exception inside the import branch. An exception of
  \<^verbatim>\<open>torch.load\<close> itself is raised as it is, before any of these checks.
\<close>

theorem load_model_with_wrapper_outcomes:
  "(fst (load_model_with_wrapper env sp cp icbhi_path use) = Inr mc \<longrightarrow>
       use
     \<and> (\<exists>path ckpt. icbhi_path = Some path \<and> path_exists env path
           \<and> torch_load env cp = Inr (CheckpointDict ckpt)
           \<and> icbhi_import env ckpt (absolute env path) = Inr mc
           \<and> import_get_backbone_class env = None
           \<and> (\<exists>model sd. ck_model ckpt = Some sd \<and> load_state_dict env model sd = None
                 \<and> fst mc = with_state model sd)
           \<and> (\<exists>i n cs. classifier_state ckpt = Inr cs
                 \<and> load_state_dict env (create_simple_classifier i n) cs = None
                 \<and> snd mc = with_state (create_simple_classifier i n) cs)))
   \<and> (torch_load env cp = Inr (CheckpointDict ckpt)
       \<and> (icbhi_path = None \<or> \<not> use \<or> (\<exists>path. icbhi_path = Some path \<and> \<not> path_exists env path))
       \<longrightarrow> load_model_with_wrapper env sp cp icbhi_path use
             = (Inl (Exc RuntimeError no_architecture_message), sp))
   \<and> (torch_load env cp = Inr (CheckpointDict ckpt) \<and> use \<and> icbhi_path = Some path
       \<and> path_exists env path \<and> icbhi_import env ckpt (absolute env path) = Inl e
       \<longrightarrow> fst (load_model_with_wrapper env sp cp icbhi_path use)
             = Inl (Exc RuntimeError (import_failed_message cp path e)))
   \<and> (torch_load env cp = Inl e
       \<longrightarrow> load_model_with_wrapper env sp cp icbhi_path use = (Inl e, sp))"
proof (intro conjI impI)
  assume r: "fst (load_model_with_wrapper env sp cp icbhi_path use) = Inr mc"
  then show use
    by (auto simp: load_model_with_wrapper_def Let_def
        split: sum.splits loaded.splits option.splits if_splits)
  from r obtain path ckpt where a: "icbhi_path = Some path" "path_exists env path"
      "torch_load env cp = Inr (CheckpointDict ckpt)"
      "icbhi_import env ckpt (absolute env path) = Inr mc"
    by (auto simp: load_model_with_wrapper_def Let_def
        split: sum.splits loaded.splits option.splits if_splits)
  from icbhi_body_Inr [OF icbhi_import_Inr [OF a(4)]] a
  show "\<exists>path ckpt. icbhi_path = Some path \<and> path_exists env path
           \<and> torch_load env cp = Inr (CheckpointDict ckpt)
           \<and> icbhi_import env ckpt (absolute env path) = Inr mc
           \<and> import_get_backbone_class env = None
           \<and> (\<exists>model sd. ck_model ckpt = Some sd \<and> load_state_dict env model sd = None
                 \<and> fst mc = with_state model sd)
           \<and> (\<exists>i n cs. classifier_state ckpt = Inr cs
                 \<and> load_state_dict env (create_simple_classifier i n) cs = None
                 \<and> snd mc = with_state (create_simple_classifier i n) cs)"
    by blast
qed (auto simp: load_model_with_wrapper_def Let_def split: option.splits)

theorem load_model_with_wrapper_outcomes_witness:
  "load_model_with_wrapper sample_env [] ''best.pth'' (Some ''/ICBHI_2017'') True
     = (Inr (Backbone ''hftt''
               \<lparr>spec_transform = None, kw_beats_model_path = None, kw_model_path = None\<rparr>
               (Some (StateDict 0)),
             Linear 768 4 (Some (StateDict 1))),
        [''/ICBHI_2017''])
   \<and> load_model_with_wrapper sample_env [] ''best.pth'' None True
     = (Inl (Exc RuntimeError no_architecture_message), [])
   \<and> load_model_with_wrapper sample_env [] ''best.pth'' (Some ''/ICBHI_2017'') False
     = (Inl (Exc RuntimeError no_architecture_message), [])
   \<and> load_model_with_wrapper sample_env [] ''best.pth'' (Some ''/elsewhere'') True
     = (Inl (Exc RuntimeError no_architecture_message), [])
   \<and> fst (load_model_with_wrapper
            (sample_env\<lparr>import_get_backbone_class :=
                          Some (Exc ImportError ''No module named models'')\<rparr>)
            [] ''best.pth'' (Some ''/ICBHI_2017'') True)
     = Inl (Exc RuntimeError
              (import_failed_message ''best.pth'' ''/ICBHI_2017''
                 (Exc ImportError ''No module named models'')))
   \<and> load_model_with_wrapper
        (sample_env\<lparr>torch_load := (\<lambda>p. Inl (Exc FileNotFoundError ''No such file''))\<rparr>)
        [] ''missing.pth'' (Some ''/ICBHI_2017'') True
     = (Inl (Exc FileNotFoundError ''No such file''), [])"
proof -
  let ?ok = "(Backbone ''hftt''
               \<lparr>spec_transform = None, kw_beats_model_path = None, kw_model_path = None\<rparr>
               (Some (StateDict 0)),
             Linear 768 4 (Some (StateDict 1)))"
  let ?env2 = "sample_env\<lparr>import_get_backbone_class :=
                          Some (Exc ImportError ''No module named models'')\<rparr>"
  let ?env3 = "sample_env\<lparr>torch_load := (\<lambda>p. Inl (Exc FileNotFoundError ''No such file''))\<rparr>"
  have body: "icbhi_import sample_env sample_checkpoint ''/ICBHI_2017'' = Inr ?ok"
    by (simp add: icbhi_import_def icbhi_body_def build_backbone_def spec_kwargs_def
        sample_env_def sample_checkpoint_def classifier_state_def n_cls_of_def
        create_simple_classifier_def beats_model_path_def)
  have ok: "load_model_with_wrapper sample_env [] ''best.pth'' (Some ''/ICBHI_2017'') True
     = (Inr ?ok, [''/ICBHI_2017''])"
    using body by (simp add: load_model_with_wrapper_def sample_env_def)
  have fails: "icbhi_import ?env2 sample_checkpoint ''/ICBHI_2017''
      = Inl (Exc ImportError ''No module named models'')"
    by (simp add: icbhi_import_def icbhi_body_def sample_env_def)
  show ?thesis
    using ok
      load_model_with_wrapper_outcomes [of sample_env "[]" "''best.pth''" None True ?ok
        sample_checkpoint]
      load_model_with_wrapper_outcomes [of sample_env "[]" "''best.pth''" "Some ''/ICBHI_2017''"
        False ?ok sample_checkpoint]
      load_model_with_wrapper_outcomes [of sample_env "[]" "''best.pth''" "Some ''/elsewhere''"
        True ?ok sample_checkpoint]
      load_model_with_wrapper_outcomes [of ?env2 "[]" "''best.pth''" "Some ''/ICBHI_2017''"
        True ?ok sample_checkpoint "''/ICBHI_2017''" "Exc ImportError ''No module named models''"]
      load_model_with_wrapper_outcomes [of ?env3 "[]" "''missing.pth''" "Some ''/ICBHI_2017''"
        True ?ok sample_checkpoint "''/ICBHI_2017''" "Exc FileNotFoundError ''No such file''"]
      fails
    by (simp add: sample_env_def)
qed

text \<open>
  C6 as stated fails when the checkpoint file cannot be read: with no \<^verbatim>\<open>icbhi_path\<close>
  the function raises the \<^verbatim>\<open>FileNotFoundError\<close> of \<^verbatim>\<open>torch.load\<close>, which is not a
  \<^verbatim>\<open>RuntimeError\<close>.
\<close>

theorem load_error_is_not_runtime_error:
  "load_model_with_wrapper
        (sample_env\<lparr>torch_load := (\<lambda>p. Inl (Exc FileNotFoundError ''No such file''))\<rparr>)
        [] ''missing.pth'' None True
     = (Inl (Exc FileNotFoundError ''No such file''), [])
   \<and> exc_class_of (Exc FileNotFoundError ''No such file'') \<noteq> RuntimeError"
  by (simp add: load_model_with_wrapper_def sample_env_def)

section \<open>Properties of the choice of the backend\<close>

lemma settings_of_attributes:
  "attr_model_type (settings_of s) = None"
  "attr_icbhi_path (settings_of s) = None"
  "attr_model_path (settings_of s) = Some (model_path s)"
  by (simp_all add: settings_of_def Settings_getattr_def Settings_attributes_def)

text \<open>
  With a settings object that has the attribute \<^verbatim>\<open>model_type\<close>, the choice is the one
  the code intends, and the background task hands the waveform to the PyTorch service
  and the features to the ONNX service.
\<close>

lemma get_inference_service_dispatch:
  assumes "attr_model_type settings = Some t"
  shows "get_inference_service settings g =
           (if lower t = ''pytorch'' then get_pytorch_inference_service settings g
            else (Inr OnnxService, g))"
  using assms by (simp add: get_inference_service_def read_attr_def)

lemma get_pytorch_inference_service_ref:
  assumes "get_pytorch_inference_service settings g = (Inr svc, g1)"
  shows "svc = PyTorchService \<and> pytorch_inference_service g1 \<noteq> None"
  using assms
  by (auto simp: get_pytorch_inference_service_def split: option.splits sum.splits)

lemma run_inference_inputs:
  assumes "attr_model_type settings = Some t"
    and "get_inference_service settings g = (Inr svc, g1)"
    and "load_waveform (w_librosa w) audio_path DEFAULT_SAMPLE_RATE = Inr waveform"
  shows "lower t = ''pytorch'' \<Longrightarrow> svc = PyTorchService
           \<and> run_inference w settings audio_path g = service_predict w svc (Array1 waveform) g1"
    and "lower t \<noteq> ''pytorch'' \<Longrightarrow> extract_mel_spectrogram (w_log_mel w) waveform = Inr features
           \<Longrightarrow> svc = OnnxService
           \<and> run_inference w settings audio_path g = service_predict w svc (Array2 features) g1"
  using assms get_pytorch_inference_service_ref [of settings g svc g1]
  by (auto simp: run_inference_def read_attr_def get_inference_service_dispatch)

text \<open>
  C1. The claim promises a service for every configuration. The class \<^verbatim>\<open>Settings\<close>
  declares no field \<^verbatim>\<open>model_type\<close>, so for every instance of it the read of
  \<^verbatim>\<open>settings.model_type\<close> in \<^verbatim>\<open>get_inference_service\<close> raises
  \<^verbatim>\<open>AttributeError\<close>: no service is returned, and the background task reaches neither
  backend.
\<close>

theorem get_inference_service_raises:
  "get_inference_service (settings_of s) g = (Inl (no_attribute ''model_type''), g)
   \<and> run_inference w (settings_of s) audio_path g = (Inl (no_attribute ''model_type''), g)
   \<and> Settings_getattr s ''model_type'' = Inl (no_attribute ''model_type'')"
  by (simp add: get_inference_service_def run_inference_def read_attr_def
      settings_of_attributes Settings_getattr_def Settings_attributes_def)

section \<open>Properties of routers/audio.py\<close>

lemma run_inference_raises:
  "fst (get_inference_service settings g) = Inl e
     \<Longrightarrow> fst (run_inference w settings audio_path g) = Inl e"
  "get_inference_service settings g = (Inr svc, g1)
     \<Longrightarrow> load_waveform (w_librosa w) audio_path DEFAULT_SAMPLE_RATE = Inl e
     \<Longrightarrow> fst (run_inference w settings audio_path g) = Inl e"
  "get_inference_service settings g = (Inr svc, g1)
     \<Longrightarrow> load_waveform (w_librosa w) audio_path DEFAULT_SAMPLE_RATE = Inr waveform
     \<Longrightarrow> svc = OnnxService
     \<Longrightarrow> extract_mel_spectrogram (w_log_mel w) waveform = Inl e
     \<Longrightarrow> fst (run_inference w settings audio_path g) = Inl e"
  "get_inference_service settings g = (Inr svc, g1)
     \<Longrightarrow> load_waveform (w_librosa w) audio_path DEFAULT_SAMPLE_RATE = Inr waveform
     \<Longrightarrow> svc = OnnxService
     \<Longrightarrow> extract_mel_spectrogram (w_log_mel w) waveform = Inr features
     \<Longrightarrow> fst (service_predict w svc (Array2 features) g1) = Inl e
     \<Longrightarrow> fst (run_inference w settings audio_path g) = Inl e"
  "get_inference_service settings g = (Inr svc, g1)
     \<Longrightarrow> load_waveform (w_librosa w) audio_path DEFAULT_SAMPLE_RATE = Inr waveform
     \<Longrightarrow> svc = PyTorchService
     \<Longrightarrow> fst (service_predict w svc (Array1 waveform) g1) = Inl e
     \<Longrightarrow> fst (run_inference w settings audio_path g) = Inl e"
  by (auto simp: run_inference_def get_inference_service_def read_attr_def
      get_pytorch_inference_service_def
      split: prod.splits sum.splits option.splits if_splits)

lemma process_prediction_cases:
  assumes "ObjectId pid = Inr i" and "predictions st i = Some d"
    and "run_inference w settings audio_path (globals st) = (outcome, g)"
  shows "\<exists>d'. process_prediction w settings now pid audio_path st
              = (None, st\<lparr>globals := g, predictions := (predictions st)(i \<mapsto> d')\<rparr>)
     \<and> (case outcome of
          Inr r \<Rightarrow> status d' = COMPLETED \<and> label d' = Some (result_label r)
                  \<and> confidence d' = Some (result_confidence r)
                  \<and> probabilities d' = Some (result_probabilities r)
        | Inl e \<Rightarrow> status d' = FAILED \<and> notes' d' = Some (str_exc e))"
proof (cases outcome)
  case (Inl e)
  from update_status_frame [where coll = "predictions st" and now = now and st = FAILED
      and lbl = None and conf = None and probs = None and nts = "Some (str_exc e)",
      OF assms(1,2)]
  obtain d' where "update_status now (predictions st) pid FAILED None None None
        (Some (str_exc e)) = (Inr (Some (normalize i d')), (predictions st)(i \<mapsto> d'))"
    and "status d' = FAILED" and "notes' d' = Some (str_exc e)"
    by auto
  then show ?thesis using assms(3) Inl
    by (auto simp: process_prediction_def)
next
  case (Inr r)
  from update_status_frame [where coll = "predictions st" and now = now and st = COMPLETED
      and lbl = "Some (result_label r)" and conf = "Some (result_confidence r)"
      and probs = "Some (result_probabilities r)" and nts = None, OF assms(1,2)]
  obtain d' where "update_status now (predictions st) pid COMPLETED (Some (result_label r))
        (Some (result_confidence r)) (Some (result_probabilities r)) None
        = (Inr (Some (normalize i d')), (predictions st)(i \<mapsto> d'))"
    and "status d' = COMPLETED" and "label d' = Some (result_label r)"
    and "confidence d' = Some (result_confidence r)"
    and "probabilities d' = Some (result_probabilities r)"
    by auto
  then show ?thesis using assms(3) Inr
    by (auto simp: process_prediction_def)
qed

text \<open>
  C3. For a prediction whose document is in the collection, every run of the background
  task ends without an exception and leaves the document in one of two states:
  \<^verbatim>\<open>COMPLETED\<close> with the label, the confidence and the probabilities of the result when
  the steps up to \<^verbatim>\<open>predict\<close> went through, or \<^verbatim>\<open>FAILED\<close> with the text of the
  exception as notes when one of them raised. The files are the same after the run.
\<close>

theorem process_prediction_terminal:
  assumes "ObjectId pid = Inr i" and "predictions st i = Some d"
  shows "\<exists>d' st'. process_prediction w settings now pid audio_path st = (None, st')
     \<and> predictions st' = (predictions st)(i \<mapsto> d')
     \<and> files st' = files st
     \<and> (status d' = COMPLETED \<or> status d' = FAILED)
     \<and> (case fst (run_inference w settings audio_path (globals st)) of
          Inr r \<Rightarrow> status d' = COMPLETED \<and> label d' = Some (result_label r)
                  \<and> confidence d' = Some (result_confidence r)
                  \<and> probabilities d' = Some (result_probabilities r)
        | Inl e \<Rightarrow> status d' = FAILED \<and> notes' d' = Some (str_exc e))"
proof -
  obtain outcome g where r: "run_inference w settings audio_path (globals st) = (outcome, g)"
    by (cases "run_inference w settings audio_path (globals st)")
  from process_prediction_cases [OF assms r, of now]
  show ?thesis using r by (cases outcome) auto
qed

lemma sample_object_id:
  "ObjectId ''000000000000000000000000'' = Inr (Oid [0, 0, 0, 0, 0, 0, 0, 0, 0, 0, 0, 0])"
  by (simp add: ObjectId_def hex_val_def hex_digits_def is_space_def)

lemma sample_onnx_result:
  "onnx_result [0, 0, 0, 0]
     = Inr \<lparr>result_label = CRACKLE, result_confidence = 1 / 4,
            result_probabilities =
              [''crackle'' \<mapsto> 1 / 4, ''wheeze'' \<mapsto> 1 / 4, ''both'' \<mapsto> 1 / 4,
               ''none'' \<mapsto> 1 / 4]\<rparr>"
proof -
  have p: "softmax [0, 0, 0, 0] = Inr [1 / 4, 1 / 4, 1 / 4, 1 / 4]"
    by (simp add: softmax_def)
  have k: "argmax [1 / 4, 1 / 4, 1 / 4, 1 / 4] = 0"
    by (simp add: argmax_def)
  show ?thesis
    using onnx_result_four [OF p] k by (simp add: Label_members_def)
qed

lemma sample_run_inference:
  "fst (run_inference sample_world onnx_settings ''/tmp/copd/uploads/a.wav''
          (globals sample_state))
     = Inr \<lparr>result_label = CRACKLE, result_confidence = 1 / 4,
            result_probabilities =
              [''crackle'' \<mapsto> 1 / 4, ''wheeze'' \<mapsto> 1 / 4, ''both'' \<mapsto> 1 / 4,
               ''none'' \<mapsto> 1 / 4]\<rparr>"
proof -
  have l: "lower ''ONNX'' \<noteq> ''pytorch''"
    by (simp add: lower_def ascii_lower_def)
  have w: "\<exists>wv. load_waveform (w_librosa sample_world) ''/tmp/copd/uploads/a.wav''
      DEFAULT_SAMPLE_RATE = Inr wv"
    by (simp add: load_waveform_def sample_world_def Let_def)
  then obtain wv where wv: "load_waveform (w_librosa sample_world)
      ''/tmp/copd/uploads/a.wav'' DEFAULT_SAMPLE_RATE = Inr wv" by blast
  have f: "\<exists>fs. extract_mel_spectrogram (w_log_mel sample_world) wv = Inr fs"
    by (simp add: extract_mel_spectrogram_def sample_world_def Let_def)
  then obtain fs where fs: "extract_mel_spectrogram (w_log_mel sample_world) wv = Inr fs"
    by blast
  have s: "fst (service_predict sample_world OnnxService (Array2 fs) (globals sample_state))
      = onnx_result [0, 0, 0, 0]"
    by (simp add: service_predict_def AudioInferenceService_predict_def
        AudioInferenceService_load_def sample_world_def sample_state_def
        split: prod.splits)
  show ?thesis
    using l wv fs s sample_onnx_result
    by (simp add: run_inference_def get_inference_service_def read_attr_def onnx_settings_def)
qed

theorem process_prediction_terminal_witness:
  "(\<exists>d' st'. process_prediction sample_world onnx_settings 9 ''000000000000000000000000''
                 ''/tmp/copd/uploads/a.wav'' sample_state = (None, st')
       \<and> predictions st' = [Oid [0, 0, 0, 0, 0, 0, 0, 0, 0, 0, 0, 0] \<mapsto> d']
       \<and> files st' = [''/tmp/copd/uploads/a.wav'' \<mapsto> [1, 2, 3]]
       \<and> status d' = COMPLETED \<and> label d' = Some CRACKLE \<and> confidence d' = Some (1 / 4))
   \<and> (\<exists>d' st'. process_prediction sample_world (settings_of default_Settings) 9
                 ''000000000000000000000000'' ''/tmp/copd/uploads/a.wav'' sample_state
                 = (None, st')
       \<and> predictions st' = [Oid [0, 0, 0, 0, 0, 0, 0, 0, 0, 0, 0, 0] \<mapsto> d']
       \<and> files st' = [''/tmp/copd/uploads/a.wav'' \<mapsto> [1, 2, 3]]
       \<and> status d' = FAILED
       \<and> notes' d' = Some (str_exc (no_attribute ''model_type'')))"
proof -
  have d: "predictions sample_state (Oid [0, 0, 0, 0, 0, 0, 0, 0, 0, 0, 0, 0])
      = Some sample_document"
    by (simp add: sample_state_def)
  have p: "predictions sample_state = [Oid [0, 0, 0, 0, 0, 0, 0, 0, 0, 0, 0, 0] \<mapsto> sample_document]"
    and f: "files sample_state = [''/tmp/copd/uploads/a.wav'' \<mapsto> [1, 2, 3]]"
    by (simp_all add: sample_state_def)
  have r: "fst (run_inference sample_world (settings_of default_Settings)
      ''/tmp/copd/uploads/a.wav'' (globals sample_state)) = Inl (no_attribute ''model_type'')"
    by (simp add: run_inference_def get_inference_service_def read_attr_def
        settings_of_attributes)
  from process_prediction_terminal [OF sample_object_id d, of sample_world onnx_settings 9
      "''/tmp/copd/uploads/a.wav''"]
  have a: "\<exists>d' st'. process_prediction sample_world onnx_settings 9 ''000000000000000000000000''
                 ''/tmp/copd/uploads/a.wav'' sample_state = (None, st')
       \<and> predictions st' = [Oid [0, 0, 0, 0, 0, 0, 0, 0, 0, 0, 0, 0] \<mapsto> d']
       \<and> files st' = [''/tmp/copd/uploads/a.wav'' \<mapsto> [1, 2, 3]]
       \<and> status d' = COMPLETED \<and> label d' = Some CRACKLE \<and> confidence d' = Some (1 / 4)"
    unfolding sample_run_inference p f by auto
  from process_prediction_terminal [OF sample_object_id d, of sample_world
      "settings_of default_Settings" 9 "''/tmp/copd/uploads/a.wav''"]
  have b: "\<exists>d' st'. process_prediction sample_world (settings_of default_Settings) 9
                 ''000000000000000000000000'' ''/tmp/copd/uploads/a.wav'' sample_state
                 = (None, st')
       \<and> predictions st' = [Oid [0, 0, 0, 0, 0, 0, 0, 0, 0, 0, 0, 0] \<mapsto> d']
       \<and> files st' = [''/tmp/copd/uploads/a.wav'' \<mapsto> [1, 2, 3]]
       \<and> status d' = FAILED
       \<and> notes' d' = Some (str_exc (no_attribute ''model_type''))"
    unfolding r p f by auto
  from a b show ?thesis by blast
qed





section \<open>Properties of the lazy load\<close>

lemma lazy_inv_init: "lazy_inv lazy_init"
  by (simp add: lazy_inv_def lazy_init_def)

lemma inv_holder:
  "lazy_inv s \<Longrightarrow> pc_of s t = Holding \<or> pc_of s t = Constructing \<Longrightarrow> lock s = Some t"
  by (auto simp: lazy_inv_def)

lemma inv_unloaded: "lazy_inv s \<Longrightarrow> pc_of s t = Constructing \<Longrightarrow> loaded s = None"
  by (auto simp: lazy_inv_def)

lemma inv_created:
  "lazy_inv s \<Longrightarrow> created s = (case loaded s of None \<Rightarrow> [] | Some v \<Rightarrow> [v])"
  by (simp add: lazy_inv_def)

lemma inv_unique:
  assumes "lazy_inv s" and "pc_of s t = Holding \<or> pc_of s t = Constructing"
    and "pc_of s u = Holding \<or> pc_of s u = Constructing"
  shows "u = t"
proof -
  have "lock s = Some t" using assms(1,2) by (rule inv_holder)
  moreover have "lock s = Some u" using assms(1,3) by (rule inv_holder)
  ultimately show ?thesis by simp
qed

lemma inv_free:
  assumes "lazy_inv s" and "lock s = None"
  shows "pc_of s u \<noteq> Holding \<and> pc_of s u \<noteq> Constructing"
  using inv_holder [OF assms(1), of u] assms(2) by auto

lemma inv_outside:
  assumes "lazy_inv s" and "p = Idle \<or> p = Waiting"
  shows "lazy_inv (move_to t p s)"
  using assms by (auto simp: lazy_inv_def move_to_def)

lemma inv_acquire:
  assumes "lazy_inv s" and "lock s = None"
  shows "lazy_inv (move_to t Holding (s\<lparr>lock := Some t\<rparr>))"
  using assms inv_free [OF assms]
  by (auto simp: lazy_inv_def move_to_def)

lemma inv_check:
  assumes "lazy_inv s" and "pc_of s t = Holding" and "loaded s = None"
  shows "lazy_inv (move_to t Constructing s)"
proof -
  have others: "pc_of s u \<noteq> Holding \<and> pc_of s u \<noteq> Constructing" if "u \<noteq> t" for u
    using inv_unique [OF assms(1), of t u] assms(2) that by blast
  have "lock s = Some t" using assms(1,2) by (simp add: inv_holder)
  moreover have "created s = []" using inv_created [OF assms(1)] assms(3) by simp
  ultimately show ?thesis using others assms(3)
    by (simp add: lazy_inv_def move_to_def)
qed

lemma inv_release:
  assumes "lazy_inv s" and "pc_of s t = Holding \<or> pc_of s t = Constructing"
  shows "lazy_inv (move_to t Idle (s\<lparr>lock := None\<rparr>))"
proof -
  have others: "pc_of s u \<noteq> Holding \<and> pc_of s u \<noteq> Constructing" if "u \<noteq> t" for u
    using inv_unique [OF assms, of u] that by blast
  have "created s = (case loaded s of None \<Rightarrow> [] | Some v \<Rightarrow> [v])"
    using assms(1) by (rule inv_created)
  then show ?thesis using others
    by (simp add: lazy_inv_def move_to_def)
qed

lemma inv_construct:
  assumes "lazy_inv s" and "pc_of s t = Constructing"
  shows "lazy_inv (move_to t Idle (s\<lparr>loaded := Some v, created := created s @ [v],
                                    lock := None\<rparr>))"
proof -
  have others: "pc_of s u \<noteq> Holding \<and> pc_of s u \<noteq> Constructing" if "u \<noteq> t" for u
    using inv_unique [OF assms(1), of t u] assms(2) that by blast
  have "loaded s = None" using assms by (rule inv_unloaded)
  then have "created s = []" using inv_created [OF assms(1)] by simp
  then show ?thesis using others
    by (simp add: lazy_inv_def move_to_def)
qed

lemma lazy_act_inv:
  assumes "lazy_inv s" and "pc_of s t = p"
  shows "lazy_inv (lazy_act a p t s)"
  using assms
  by (cases "(a, p, t, s)" rule: lazy_act.cases)
    (simp_all add: inv_outside inv_acquire inv_check inv_release inv_construct)

lemma lazy_step_inv: "lazy_inv s \<Longrightarrow> lazy_inv (lazy_step ev s)"
  by (simp add: lazy_step_def lazy_act_inv)

lemma lazy_run_inv: "lazy_inv s \<Longrightarrow> lazy_inv (lazy_run schedule s)"
  unfolding lazy_run_def
  by (induction schedule arbitrary: s) (simp_all add: lazy_step_inv)

lemma lazy_act_keeps:
  assumes "lazy_inv s" and "pc_of s t = p" and "loaded s = Some v"
  shows "loaded (lazy_act a p t s) = Some v"
proof -
  have "p \<noteq> Constructing" using inv_unloaded [OF assms(1), of t] assms(2,3) by auto
  then show ?thesis using assms(3)
    by (cases "(a, p, t, s)" rule: lazy_act.cases) (simp_all add: move_to_def)
qed

lemma lazy_run_keeps:
  assumes "lazy_inv s" and "loaded s = Some v"
  shows "loaded (lazy_run schedule s) = Some v"
  using assms unfolding lazy_run_def
proof (induction schedule arbitrary: s)
  case Nil
  then show ?case by simp
next
  case (Cons ev schedule)
  have "lazy_inv (lazy_step ev s)" using Cons.prems(1) by (rule lazy_step_inv)
  moreover have "loaded (lazy_step ev s) = Some v"
    using Cons.prems by (simp add: lazy_step_def lazy_act_keeps)
  ultimately show ?case using Cons.IH by simp
qed

lemma onnx_load_loaded:
  "session svc = Some s \<Longrightarrow> AudioInferenceService_load env svc = (None, svc)"
  by (simp add: AudioInferenceService_load_def)

lemma onnx_load_unloaded:
  "session svc = None \<Longrightarrow>
     AudioInferenceService_load env svc
       = (case create_session env (onnx_model_path svc) of
            Some e \<Rightarrow> (Some e, svc)
          | None \<Rightarrow> (None, svc\<lparr>session := Some (InferenceSession (onnx_model_path svc))\<rparr>))"
  by (simp add: AudioInferenceService_load_def)

lemma onnx_predict_loaded:
  "session svc = Some s \<Longrightarrow>
     AudioInferenceService_predict env svc x
       = (case run_session env s x of Inl e \<Rightarrow> Inl e | Inr logits \<Rightarrow> onnx_result logits, svc)"
  by (simp add: AudioInferenceService_predict_def split: sum.splits)

lemma onnx_predict_unloaded:
  assumes "session svc = None"
  shows "create_session env (onnx_model_path svc) = Some e
           \<Longrightarrow> AudioInferenceService_predict env svc x = (Inl e, svc)"
    and "create_session env (onnx_model_path svc) = None
           \<Longrightarrow> session (snd (AudioInferenceService_predict env svc x))
                 = Some (InferenceSession (onnx_model_path svc))"
  using assms
  by (simp_all add: AudioInferenceService_predict_def AudioInferenceService_load_def
      split: sum.splits)

lemma onnx_predict_calls_load:
  assumes "session svc = None"
  shows "snd (AudioInferenceService_predict env svc x) = snd (AudioInferenceService_load env svc)"
    and "fst (AudioInferenceService_load env svc) = Some e
           \<Longrightarrow> fst (AudioInferenceService_predict env svc x) = Inl e"
  using assms
  by (auto simp: AudioInferenceService_predict_def AudioInferenceService_load_def
      split: sum.splits option.splits)

lemma pytorch_load_loaded:
  "pt_model svc = Some m \<Longrightarrow> PyTorchAudioInferenceService_load env sp svc = (None, svc, sp)"
  by (simp add: PyTorchAudioInferenceService_load_def)

lemma pytorch_predict_loaded:
  "pt_model svc = Some m \<Longrightarrow> snd (PyTorchAudioInferenceService_predict env sp svc x) = (svc, sp)"
  by (simp add: PyTorchAudioInferenceService_predict_def split: option.splits sum.splits)

lemma pytorch_load_raises_runtime_error:
  "PyTorchAudioInferenceService_load env sp svc = (Some e, svc', sp')
     \<Longrightarrow> exc_class_of e = RuntimeError"
  by (auto simp: PyTorchAudioInferenceService_load_def split: option.splits prod.splits)

text \<open>
  \<^verbatim>\<open>load\<close> of a PyTorch service without a model, by what the steps of its \<^verbatim>\<open>try\<close> do.
\<close>

lemma pytorch_load_unloaded:
  assumes "pt_model svc = None"
  shows "get_model_info env (pt_model_path svc) = Inl e
           \<Longrightarrow> PyTorchAudioInferenceService_load env sp svc = (Some (load_error svc e), svc, sp)"
    and "get_model_info env (pt_model_path svc) = Inr info
           \<Longrightarrow> load_model_with_wrapper env sp (pt_model_path svc) (pt_icbhi_path svc) True
                 = (Inl e, sp')
           \<Longrightarrow> PyTorchAudioInferenceService_load env sp svc
                 = (Some (load_error svc e), svc\<lparr>pt_model_info := Some info\<rparr>, sp')"
    and "get_model_info env (pt_model_path svc) = Inr info
           \<Longrightarrow> load_model_with_wrapper env sp (pt_model_path svc) (pt_icbhi_path svc) True
                 = (Inr (mo, cl), sp')
           \<Longrightarrow> to_device env mo = None \<Longrightarrow> to_device env cl = None
           \<Longrightarrow> PyTorchAudioInferenceService_load env sp svc
                 = (None,
                    svc\<lparr>pt_model_info := Some info, pt_model := Some mo,
                        pt_classifier := Some cl\<rparr>, sp')"
    and "get_model_info env (pt_model_path svc) = Inr info
           \<Longrightarrow> load_model_with_wrapper env sp (pt_model_path svc) (pt_icbhi_path svc) True
                 = (Inr (mo, cl), sp')
           \<Longrightarrow> to_device env mo = Some e \<or> (to_device env mo = None \<and> to_device env cl = Some e)
           \<Longrightarrow> PyTorchAudioInferenceService_load env sp svc
                 = (Some (load_error svc e),
                    svc\<lparr>pt_model_info := Some info, pt_model := Some mo,
                        pt_classifier := Some cl\<rparr>, sp')"
  using assms
  by (auto simp: PyTorchAudioInferenceService_load_def load_steps_def load_error_def Let_def)

lemma pytorch_predict_calls_load:
  assumes "pt_model svc = None"
  shows "snd (PyTorchAudioInferenceService_predict env sp svc x)
           = snd (PyTorchAudioInferenceService_load env sp svc)"
    and "fst (PyTorchAudioInferenceService_load env sp svc) = Some e
           \<Longrightarrow> fst (PyTorchAudioInferenceService_predict env sp svc x) = Inl e"
  using assms
  by (auto simp: PyTorchAudioInferenceService_predict_def
      split: prod.splits sum.splits option.splits)

text \<open>
  The steps of one task from its call to its end, with the constructor of the service,
  leave the object that \<^verbatim>\<open>load\<close> and \<^verbatim>\<open>predict\<close> of the service leave.
\<close>

lemma lazy_run_is_onnx:
  "loaded (lazy_run [(t, Call_load), (t, Acquire), (t, Check),
                     (t, Construct (onnx_construct env svc))] (lazy_of (session svc)))
     = session (snd (AudioInferenceService_load env svc))"
  "loaded (lazy_run [(t, Call_predict), (t, Acquire), (t, Check),
                     (t, Construct (onnx_construct env svc))] (lazy_of (session svc)))
     = session (snd (AudioInferenceService_predict env svc x))"
proof -
  show "loaded (lazy_run [(t, Call_load), (t, Acquire), (t, Check),
                     (t, Construct (onnx_construct env svc))] (lazy_of (session svc)))
     = session (snd (AudioInferenceService_load env svc))"
    by (cases "session svc"; cases "create_session env (onnx_model_path svc)")
      (simp_all add: lazy_run_def lazy_step_def lazy_of_def move_to_def onnx_construct_def
        AudioInferenceService_load_def)
  show "loaded (lazy_run [(t, Call_predict), (t, Acquire), (t, Check),
                     (t, Construct (onnx_construct env svc))] (lazy_of (session svc)))
     = session (snd (AudioInferenceService_predict env svc x))"
  proof (cases "session svc")
    case None
    then show ?thesis
      using onnx_predict_calls_load(1) [OF None, of env x]
      by (cases "create_session env (onnx_model_path svc)")
        (simp_all add: lazy_run_def lazy_step_def lazy_of_def move_to_def onnx_construct_def
          AudioInferenceService_load_def)
  next
    case (Some s)
    then show ?thesis
      by (simp add: lazy_run_def lazy_step_def lazy_of_def onnx_predict_loaded)
  qed
qed

lemma pytorch_construct_load:
  assumes "pt_model svc = None"
  shows "pt_model (fst (snd (PyTorchAudioInferenceService_load env sp svc)))
     = (case pytorch_construct env sp svc of
          Returns m \<Rightarrow> Some m
        | Assigns_then_raises m e \<Rightarrow> Some m
        | Raises e \<Rightarrow> None)"
  using assms
  by (auto simp: PyTorchAudioInferenceService_load_def load_steps_def pytorch_construct_def
      Let_def split: sum.splits prod.splits option.splits)

lemma lazy_run_construct:
  "loaded (lazy_run [(t, Call_load), (t, Acquire), (t, Check), (t, Construct c)]
             (lazy_of None))
     = (case c of Returns m \<Rightarrow> Some m | Assigns_then_raises m e \<Rightarrow> Some m | Raises e \<Rightarrow> None)"
  "loaded (lazy_run [(t, Call_predict), (t, Acquire), (t, Check), (t, Construct c)]
             (lazy_of None))
     = (case c of Returns m \<Rightarrow> Some m | Assigns_then_raises m e \<Rightarrow> Some m | Raises e \<Rightarrow> None)"
  by (cases c; simp add: lazy_run_def lazy_step_def lazy_of_def move_to_def)+

lemma lazy_run_loaded:
  "loaded (lazy_run [(t, Call_load), (t, Acquire), (t, Check), (t, Construct c)]
             (lazy_of (Some v))) = Some v"
  "loaded (lazy_run [(t, Call_predict), (t, Acquire), (t, Check), (t, Construct c)]
             (lazy_of (Some v))) = Some v"
  by (simp_all add: lazy_run_def lazy_step_def lazy_of_def move_to_def)

lemma lazy_run_is_pytorch:
  "loaded (lazy_run [(t, Call_load), (t, Acquire), (t, Check),
                     (t, Construct (pytorch_construct env sp svc))] (lazy_of (pt_model svc)))
     = pt_model (fst (snd (PyTorchAudioInferenceService_load env sp svc)))"
  "loaded (lazy_run [(t, Call_predict), (t, Acquire), (t, Check),
                     (t, Construct (pytorch_construct env sp svc))] (lazy_of (pt_model svc)))
     = pt_model (fst (snd (PyTorchAudioInferenceService_predict env sp svc x)))"
proof -
  show "loaded (lazy_run [(t, Call_load), (t, Acquire), (t, Check),
                     (t, Construct (pytorch_construct env sp svc))] (lazy_of (pt_model svc)))
     = pt_model (fst (snd (PyTorchAudioInferenceService_load env sp svc)))"
  proof (cases "pt_model svc")
    case None
    then show ?thesis
      by (simp add: lazy_run_construct(1) pytorch_construct_load)
  next
    case (Some m)
    then show ?thesis
      by (simp add: lazy_run_loaded(1) pytorch_load_loaded)
  qed
  show "loaded (lazy_run [(t, Call_predict), (t, Acquire), (t, Check),
                     (t, Construct (pytorch_construct env sp svc))] (lazy_of (pt_model svc)))
     = pt_model (fst (snd (PyTorchAudioInferenceService_predict env sp svc x)))"
  proof (cases "pt_model svc")
    case None
    then show ?thesis
      by (simp add: lazy_run_construct(2) pytorch_construct_load
          pytorch_predict_calls_load(1))
  next
    case (Some m)
    then show ?thesis
      by (simp add: lazy_run_loaded(2) pytorch_predict_loaded)
  qed
qed

lemma lazy_inv_of: "lazy_inv (lazy_of x)"
  by (simp add: lazy_inv_def lazy_of_def)

text \<open>
  C7. A service that has its object does not construct again: \<^verbatim>\<open>load\<close> returns at once
  and \<^verbatim>\<open>predict\<close> does not call it, both leaving the service as it is. A service that
  has none constructs in \<^verbatim>\<open>load\<close>: the ONNX service opens its session, the PyTorch
  service reads the model information, assigns the model and the classifier that
  \<^verbatim>\<open>load_model_with_wrapper\<close> returns and moves them to the device, each failure being
  raised as a \<^verbatim>\<open>RuntimeError\<close>; and \<^verbatim>\<open>predict\<close> on such a service calls \<^verbatim>\<open>load\<close>
  first, leaving what \<^verbatim>\<open>load\<close> leaves and raising what it raises. The steps of a task
  with the constructor of a service give the object that \<^verbatim>\<open>load\<close> and \<^verbatim>\<open>predict\<close> of
  that service give. Whatever the tasks of the event loop do and in whatever order, at
  most one object is ever assigned, and once one is assigned it stays: a second task
  that saw \<^verbatim>\<open>None\<close> before the first one finished finds the object when it gets the
  lock.
\<close>

theorem lazy_load_at_most_once:
  "(session svc = Some s \<longrightarrow>
       AudioInferenceService_load env svc = (None, svc)
     \<and> snd (AudioInferenceService_predict env svc x) = svc)
   \<and> (session svc = None \<and> create_session env (onnx_model_path svc) = Some e \<longrightarrow>
       AudioInferenceService_predict env svc x = (Inl e, svc))
   \<and> (session svc = None \<and> create_session env (onnx_model_path svc) = None \<longrightarrow>
       session (snd (AudioInferenceService_predict env svc x))
         = Some (InferenceSession (onnx_model_path svc)))
   \<and> (pt_model psvc = Some m \<longrightarrow>
       PyTorchAudioInferenceService_load tenv sp psvc = (None, psvc, sp)
     \<and> snd (PyTorchAudioInferenceService_predict tenv sp psvc x) = (psvc, sp))
   \<and> length (created (lazy_run schedule lazy_init)) \<le> 1
   \<and> created (lazy_run schedule lazy_init)
       = (case loaded (lazy_run schedule lazy_init) of None \<Rightarrow> [] | Some v \<Rightarrow> [v])
   \<and> (loaded (lazy_run schedule lazy_init) = Some v \<longrightarrow>
       loaded (lazy_run (schedule @ later) lazy_init) = Some v)
   \<and> (session svc = None \<longrightarrow>
       AudioInferenceService_load env svc
         = (case create_session env (onnx_model_path svc) of
              Some e \<Rightarrow> (Some e, svc)
            | None \<Rightarrow>
                (None, svc\<lparr>session := Some (InferenceSession (onnx_model_path svc))\<rparr>))
     \<and> snd (AudioInferenceService_predict env svc x)
         = snd (AudioInferenceService_load env svc)
     \<and> (fst (AudioInferenceService_load env svc) = Some e \<longrightarrow>
          fst (AudioInferenceService_predict env svc x) = Inl e))
   \<and> (pt_model psvc = None \<longrightarrow>
       snd (PyTorchAudioInferenceService_predict tenv sp psvc x)
         = snd (PyTorchAudioInferenceService_load tenv sp psvc)
     \<and> (fst (PyTorchAudioInferenceService_load tenv sp psvc) = Some e \<longrightarrow>
          fst (PyTorchAudioInferenceService_predict tenv sp psvc x) = Inl e))
   \<and> (pt_model psvc = None \<and> get_model_info tenv (pt_model_path psvc) = Inl e \<longrightarrow>
       PyTorchAudioInferenceService_load tenv sp psvc = (Some (load_error psvc e), psvc, sp))
   \<and> (pt_model psvc = None \<and> get_model_info tenv (pt_model_path psvc) = Inr info
       \<and> load_model_with_wrapper tenv sp (pt_model_path psvc) (pt_icbhi_path psvc) True
           = (Inl e, sp') \<longrightarrow>
       PyTorchAudioInferenceService_load tenv sp psvc
         = (Some (load_error psvc e), psvc\<lparr>pt_model_info := Some info\<rparr>, sp'))
   \<and> (pt_model psvc = None \<and> get_model_info tenv (pt_model_path psvc) = Inr info
       \<and> load_model_with_wrapper tenv sp (pt_model_path psvc) (pt_icbhi_path psvc) True
           = (Inr (mo, cl), sp')
       \<and> to_device tenv mo = None \<and> to_device tenv cl = None \<longrightarrow>
       PyTorchAudioInferenceService_load tenv sp psvc
         = (None,
            psvc\<lparr>pt_model_info := Some info, pt_model := Some mo, pt_classifier := Some cl\<rparr>,
            sp'))
   \<and> (pt_model psvc = None \<and> get_model_info tenv (pt_model_path psvc) = Inr info
       \<and> load_model_with_wrapper tenv sp (pt_model_path psvc) (pt_icbhi_path psvc) True
           = (Inr (mo, cl), sp')
       \<and> (to_device tenv mo = Some e
            \<or> (to_device tenv mo = None \<and> to_device tenv cl = Some e)) \<longrightarrow>
       PyTorchAudioInferenceService_load tenv sp psvc
         = (Some (load_error psvc e),
            psvc\<lparr>pt_model_info := Some info, pt_model := Some mo, pt_classifier := Some cl\<rparr>,
            sp'))
   \<and> loaded (lazy_run [(t, Call_load), (t, Acquire), (t, Check),
                        (t, Construct (onnx_construct env svc))] (lazy_of (session svc)))
       = session (snd (AudioInferenceService_load env svc))
   \<and> loaded (lazy_run [(t, Call_predict), (t, Acquire), (t, Check),
                        (t, Construct (onnx_construct env svc))] (lazy_of (session svc)))
       = session (snd (AudioInferenceService_predict env svc x))
   \<and> loaded (lazy_run [(t, Call_load), (t, Acquire), (t, Check),
                        (t, Construct (pytorch_construct tenv sp psvc))]
               (lazy_of (pt_model psvc)))
       = pt_model (fst (snd (PyTorchAudioInferenceService_load tenv sp psvc)))
   \<and> loaded (lazy_run [(t, Call_predict), (t, Acquire), (t, Check),
                        (t, Construct (pytorch_construct tenv sp psvc))]
               (lazy_of (pt_model psvc)))
       = pt_model (fst (snd (PyTorchAudioInferenceService_predict tenv sp psvc x)))
   \<and> length (created (lazy_run schedule (lazy_of obj))) \<le> 1
   \<and> created (lazy_run schedule (lazy_of obj))
       = (case loaded (lazy_run schedule (lazy_of obj)) of None \<Rightarrow> [] | Some v \<Rightarrow> [v])
   \<and> (loaded (lazy_run schedule (lazy_of obj)) = Some v \<longrightarrow>
       loaded (lazy_run (schedule @ later) (lazy_of obj)) = Some v)"
proof -
  have machine: "length (created (lazy_run schedule st)) \<le> 1
      \<and> created (lazy_run schedule st)
          = (case loaded (lazy_run schedule st) of None \<Rightarrow> [] | Some v \<Rightarrow> [v])
      \<and> (loaded (lazy_run schedule st) = Some v \<longrightarrow>
          loaded (lazy_run (schedule @ later) st) = Some v)"
    if "lazy_inv st" for st and v
  proof -
    let ?r = "lazy_run schedule st"
    have inv: "lazy_inv ?r" using that by (rule lazy_run_inv)
    then have c: "created ?r = (case loaded ?r of None \<Rightarrow> [] | Some v \<Rightarrow> [v])"
      by (rule inv_created)
    then have l: "length (created ?r) \<le> 1" by (simp split: option.splits)
    have k: "loaded (lazy_run (schedule @ later) st) = Some v" if "loaded ?r = Some v"
    proof -
      have "lazy_run (schedule @ later) st = lazy_run later ?r"
        by (simp add: lazy_run_def)
      then show ?thesis using lazy_run_keeps [OF inv that] by simp
    qed
    from c l k show ?thesis by blast
  qed
  note m1 = machine [OF lazy_inv_init, of v]
  note m2 = machine [OF lazy_inv_of, of obj v]
  have o1: "session svc = Some s \<longrightarrow>
       AudioInferenceService_load env svc = (None, svc)
     \<and> snd (AudioInferenceService_predict env svc x) = svc"
    by (simp add: onnx_load_loaded onnx_predict_loaded)
  have o2: "session svc = None \<and> create_session env (onnx_model_path svc) = Some e \<longrightarrow>
       AudioInferenceService_predict env svc x = (Inl e, svc)"
    by (simp add: onnx_predict_unloaded(1))
  have o3: "session svc = None \<and> create_session env (onnx_model_path svc) = None \<longrightarrow>
       session (snd (AudioInferenceService_predict env svc x))
         = Some (InferenceSession (onnx_model_path svc))"
    by (simp add: onnx_predict_unloaded(2))
  have o4: "session svc = None \<longrightarrow>
       AudioInferenceService_load env svc
         = (case create_session env (onnx_model_path svc) of
              Some e \<Rightarrow> (Some e, svc)
            | None \<Rightarrow>
                (None, svc\<lparr>session := Some (InferenceSession (onnx_model_path svc))\<rparr>))
     \<and> snd (AudioInferenceService_predict env svc x)
         = snd (AudioInferenceService_load env svc)
     \<and> (fst (AudioInferenceService_load env svc) = Some e \<longrightarrow>
          fst (AudioInferenceService_predict env svc x) = Inl e)"
    by (simp add: onnx_load_unloaded onnx_predict_calls_load)
  have p1: "pt_model psvc = Some m \<longrightarrow>
       PyTorchAudioInferenceService_load tenv sp psvc = (None, psvc, sp)
     \<and> snd (PyTorchAudioInferenceService_predict tenv sp psvc x) = (psvc, sp)"
    by (simp add: pytorch_load_loaded pytorch_predict_loaded)
  have p2: "pt_model psvc = None \<longrightarrow>
       snd (PyTorchAudioInferenceService_predict tenv sp psvc x)
         = snd (PyTorchAudioInferenceService_load tenv sp psvc)
     \<and> (fst (PyTorchAudioInferenceService_load tenv sp psvc) = Some e \<longrightarrow>
          fst (PyTorchAudioInferenceService_predict tenv sp psvc x) = Inl e)"
    by (simp add: pytorch_predict_calls_load)
  have p3: "pt_model psvc = None \<and> get_model_info tenv (pt_model_path psvc) = Inl e \<longrightarrow>
       PyTorchAudioInferenceService_load tenv sp psvc = (Some (load_error psvc e), psvc, sp)"
    by (simp add: pytorch_load_unloaded(1))
  have p4: "pt_model psvc = None \<and> get_model_info tenv (pt_model_path psvc) = Inr info
       \<and> load_model_with_wrapper tenv sp (pt_model_path psvc) (pt_icbhi_path psvc) True
           = (Inl e, sp') \<longrightarrow>
       PyTorchAudioInferenceService_load tenv sp psvc
         = (Some (load_error psvc e), psvc\<lparr>pt_model_info := Some info\<rparr>, sp')"
    using pytorch_load_unloaded(2) by blast
  have p5: "pt_model psvc = None \<and> get_model_info tenv (pt_model_path psvc) = Inr info
       \<and> load_model_with_wrapper tenv sp (pt_model_path psvc) (pt_icbhi_path psvc) True
           = (Inr (mo, cl), sp')
       \<and> to_device tenv mo = None \<and> to_device tenv cl = None \<longrightarrow>
       PyTorchAudioInferenceService_load tenv sp psvc
         = (None,
            psvc\<lparr>pt_model_info := Some info, pt_model := Some mo, pt_classifier := Some cl\<rparr>,
            sp')"
    using pytorch_load_unloaded(3) by blast
  have p6: "pt_model psvc = None \<and> get_model_info tenv (pt_model_path psvc) = Inr info
       \<and> load_model_with_wrapper tenv sp (pt_model_path psvc) (pt_icbhi_path psvc) True
           = (Inr (mo, cl), sp')
       \<and> (to_device tenv mo = Some e
            \<or> (to_device tenv mo = None \<and> to_device tenv cl = Some e)) \<longrightarrow>
       PyTorchAudioInferenceService_load tenv sp psvc
         = (Some (load_error psvc e),
            psvc\<lparr>pt_model_info := Some info, pt_model := Some mo, pt_classifier := Some cl\<rparr>,
            sp')"
    using pytorch_load_unloaded(4) by blast
  have t1: "loaded (lazy_run [(t, Call_load), (t, Acquire), (t, Check),
                        (t, Construct (onnx_construct env svc))] (lazy_of (session svc)))
       = session (snd (AudioInferenceService_load env svc))"
    by (rule lazy_run_is_onnx(1))
  have t2: "loaded (lazy_run [(t, Call_predict), (t, Acquire), (t, Check),
                        (t, Construct (onnx_construct env svc))] (lazy_of (session svc)))
       = session (snd (AudioInferenceService_predict env svc x))"
    by (rule lazy_run_is_onnx(2))
  have t3: "loaded (lazy_run [(t, Call_load), (t, Acquire), (t, Check),
                        (t, Construct (pytorch_construct tenv sp psvc))]
               (lazy_of (pt_model psvc)))
       = pt_model (fst (snd (PyTorchAudioInferenceService_load tenv sp psvc)))"
    by (rule lazy_run_is_pytorch(1))
  have t4: "loaded (lazy_run [(t, Call_predict), (t, Acquire), (t, Check),
                        (t, Construct (pytorch_construct tenv sp psvc))]
               (lazy_of (pt_model psvc)))
       = pt_model (fst (snd (PyTorchAudioInferenceService_predict tenv sp psvc x)))"
    by (rule lazy_run_is_pytorch(2))
  show ?thesis
    by (intro conjI) (rule o1 o2 o3 p1 m1 [THEN conjunct1] m1 [THEN conjunct2, THEN conjunct1]
      m1 [THEN conjunct2, THEN conjunct2] o4 p2 p3 p4 p5 p6 t1 t2 t3 t4
      m2 [THEN conjunct1] m2 [THEN conjunct2, THEN conjunct1]
      m2 [THEN conjunct2, THEN conjunct2])+
qed

theorem lazy_load_at_most_once_witness:
  "AudioInferenceService_load (w_onnx sample_world)
       \<lparr>onnx_model_path = ''m.onnx'', session = Some (InferenceSession ''m.onnx'')\<rparr>
     = (None, \<lparr>onnx_model_path = ''m.onnx'', session = Some (InferenceSession ''m.onnx'')\<rparr>)
   \<and> AudioInferenceService_load (w_onnx sample_world)
       \<lparr>onnx_model_path = ''m.onnx'', session = None\<rparr>
     = (None, \<lparr>onnx_model_path = ''m.onnx'', session = Some (InferenceSession ''m.onnx'')\<rparr>)
   \<and> AudioInferenceService_predict
         (w_onnx sample_world\<lparr>create_session := (\<lambda>p. Some (Exc OSError ''no file''))\<rparr>)
         \<lparr>onnx_model_path = ''m.onnx'', session = None\<rparr> (Array2 [[0]])
     = (Inl (Exc OSError ''no file''), \<lparr>onnx_model_path = ''m.onnx'', session = None\<rparr>)
   \<and> session (snd (AudioInferenceService_predict (w_onnx sample_world)
         \<lparr>onnx_model_path = ''m.onnx'', session = None\<rparr> (Array2 [[0]])))
     = Some (InferenceSession ''m.onnx'')
   \<and> PyTorchAudioInferenceService_load sample_env []
         \<lparr>pt_model_path = ''best.pth'', pt_icbhi_path = None,
          pt_model = Some (Linear 1 1 None), pt_classifier = Some (Linear 1 4 None),
          pt_model_info = None\<rparr>
     = (None,
        \<lparr>pt_model_path = ''best.pth'', pt_icbhi_path = None,
          pt_model = Some (Linear 1 1 None), pt_classifier = Some (Linear 1 4 None),
          pt_model_info = None\<rparr>, [])
   \<and> PyTorchAudioInferenceService_load (sample_env\<lparr>path_exists := (\<lambda>p. True)\<rparr>) []
         \<lparr>pt_model_path = ''best.pth'', pt_icbhi_path = Some ''/ICBHI_2017'',
          pt_model = None, pt_classifier = None, pt_model_info = None\<rparr>
     = (None,
        \<lparr>pt_model_path = ''best.pth'', pt_icbhi_path = Some ''/ICBHI_2017'',
          pt_model = Some (Backbone ''hftt''
             \<lparr>spec_transform = None,
              kw_beats_model_path =
                Some ''/ICBHI_2017/pretrained_models/BEATs_iter3_plus_AS2M.pt'',
              kw_model_path = None\<rparr> (Some (StateDict 0))),
          pt_classifier = Some (Linear 768 4 (Some (StateDict 1))),
          pt_model_info = Some \<lparr>has_model = True, has_classifier = True,
             info_model_type = Some ''hftt'', info_n_cls = Some 4\<rparr>\<rparr>,
        [''/ICBHI_2017''])
   \<and> pt_model (fst (snd (PyTorchAudioInferenceService_predict
         (sample_env\<lparr>path_exists := (\<lambda>p. True)\<rparr>) []
         \<lparr>pt_model_path = ''best.pth'', pt_icbhi_path = Some ''/ICBHI_2017'',
          pt_model = None, pt_classifier = None, pt_model_info = None\<rparr> (Array1 [0]))))
     = Some (Backbone ''hftt''
             \<lparr>spec_transform = None,
              kw_beats_model_path =
                Some ''/ICBHI_2017/pretrained_models/BEATs_iter3_plus_AS2M.pt'',
              kw_model_path = None\<rparr> (Some (StateDict 0)))
   \<and> PyTorchAudioInferenceService_load sample_env []
         \<lparr>pt_model_path = ''best.pth'', pt_icbhi_path = Some ''/ICBHI_2017'',
          pt_model = None, pt_classifier = None, pt_model_info = None\<rparr>
     = (Some (load_error
                \<lparr>pt_model_path = ''best.pth'', pt_icbhi_path = Some ''/ICBHI_2017'',
                 pt_model = None, pt_classifier = None, pt_model_info = None\<rparr>
                (Exc FileNotFoundError ''Checkpoint not found: best.pth'')),
        \<lparr>pt_model_path = ''best.pth'', pt_icbhi_path = Some ''/ICBHI_2017'',
          pt_model = None, pt_classifier = None, pt_model_info = None\<rparr>, [])
   \<and> loaded (lazy_run
         [(0, Call_predict), (1, Call_predict), (0, Acquire), (1, Acquire), (0, Check),
          (0, Construct (Returns (7::nat))), (1, Acquire), (1, Check),
          (1, Construct (Returns 8))] lazy_init) = Some 7
   \<and> created (lazy_run
         [(0, Call_predict), (1, Call_predict), (0, Acquire), (1, Acquire), (0, Check),
          (0, Construct (Returns (7::nat))), (1, Acquire), (1, Check),
          (1, Construct (Returns 8))] lazy_init) = [7]"
proof -
  let ?loaded = "\<lparr>onnx_model_path = ''m.onnx'', session = Some (InferenceSession ''m.onnx'')\<rparr>"
  let ?empty = "\<lparr>onnx_model_path = ''m.onnx'', session = None\<rparr>"
  let ?bad = "w_onnx sample_world\<lparr>create_session := (\<lambda>p. Some (Exc OSError ''no file''))\<rparr>"
  let ?pt = "\<lparr>pt_model_path = ''best.pth'', pt_icbhi_path = None,
          pt_model = Some (Linear 1 1 None), pt_classifier = Some (Linear 1 4 None),
          pt_model_info = None\<rparr>"
  let ?u = "\<lparr>pt_model_path = ''best.pth'', pt_icbhi_path = Some ''/ICBHI_2017'',
          pt_model = None, pt_classifier = None, pt_model_info = None\<rparr>"
  let ?env2 = "sample_env\<lparr>path_exists := (\<lambda>p. True)\<rparr>"
  let ?kw = "\<lparr>spec_transform = None,
              kw_beats_model_path =
                Some ''/ICBHI_2017/pretrained_models/BEATs_iter3_plus_AS2M.pt'',
              kw_model_path = None\<rparr>"
  let ?mo = "Backbone ''hftt'' ?kw (Some (StateDict 0))"
  let ?cl = "Linear 768 4 (Some (StateDict 1))"
  let ?info = "\<lparr>has_model = True, has_classifier = True,
             info_model_type = Some ''hftt'', info_n_cls = Some 4\<rparr>"
  let ?first = "[(0, Call_predict), (1, Call_predict), (0, Acquire), (1, Acquire), (0, Check),
          (0, Construct (Returns (7::nat)))]"
  let ?later = "[(1, Acquire), (1, Check), (1, Construct (Returns (8::nat)))]"
  have f: "loaded (lazy_run ?first lazy_init) = Some 7"
    by (simp add: lazy_run_def lazy_step_def lazy_init_def move_to_def)
  have a: "?first @ ?later = [(0, Call_predict), (1, Call_predict), (0, Acquire), (1, Acquire),
      (0, Check), (0, Construct (Returns (7::nat))), (1, Acquire), (1, Check),
      (1, Construct (Returns 8))]"
    by simp
  have one: "loaded (lazy_run (?first @ ?later) lazy_init) = Some 7"
    using lazy_load_at_most_once [where schedule = ?first and v = 7 and later = ?later, THEN conjunct2, THEN conjunct2, THEN conjunct2, THEN conjunct2, THEN conjunct2, THEN conjunct2, THEN conjunct1] f
    by (rule mp)
  have two: "created (lazy_run (?first @ ?later) lazy_init) = [7]"
    using lazy_load_at_most_once [where schedule = "?first @ ?later", THEN conjunct2, THEN conjunct2, THEN conjunct2, THEN conjunct2, THEN conjunct2, THEN conjunct1]
    unfolding one by simp
  have three: "AudioInferenceService_load (w_onnx sample_world) ?loaded = (None, ?loaded)"
    using lazy_load_at_most_once [where svc = ?loaded and s = "InferenceSession ''m.onnx''"
        and env = "w_onnx sample_world", THEN conjunct1]
    by simp
  have four: "PyTorchAudioInferenceService_load sample_env [] ?pt = (None, ?pt, [])"
    using lazy_load_at_most_once [where psvc = ?pt and m = "Linear 1 1 None" and tenv = sample_env
        and sp = "[]", THEN conjunct2, THEN conjunct2, THEN conjunct2, THEN conjunct1]
    by simp
  have five: "AudioInferenceService_predict ?bad ?empty (Array2 [[0]])
      = (Inl (Exc OSError ''no file''), ?empty)"
    using lazy_load_at_most_once [where svc = ?empty and env = ?bad and x = "Array2 [[0]]"
        and e = "Exc OSError ''no file''", THEN conjunct2, THEN conjunct1]
    by simp
  have six: "session (snd (AudioInferenceService_predict (w_onnx sample_world) ?empty
      (Array2 [[0]]))) = Some (InferenceSession ''m.onnx'')"
    using lazy_load_at_most_once [where svc = ?empty and env = "w_onnx sample_world"
        and x = "Array2 [[0]]", THEN conjunct2, THEN conjunct2, THEN conjunct1]
    by (simp add: sample_world_def)
  have seven: "AudioInferenceService_load (w_onnx sample_world) ?empty = (None, ?loaded)"
    using lazy_load_at_most_once [where svc = ?empty and env = "w_onnx sample_world", THEN conjunct2, THEN conjunct2, THEN conjunct2, THEN conjunct2, THEN conjunct2, THEN conjunct2, THEN conjunct2, THEN conjunct1]
    by (simp add: sample_world_def)
  have gi: "get_model_info ?env2 (pt_model_path ?u) = Inr ?info"
    by (simp add: get_model_info_def sample_env_def sample_checkpoint_def)
  have body: "icbhi_import ?env2 sample_checkpoint ''/ICBHI_2017'' = Inr (?mo, ?cl)"
    by (simp add: icbhi_import_def icbhi_body_def build_backbone_def spec_kwargs_def
        sample_env_def sample_checkpoint_def classifier_state_def n_cls_of_def
        create_simple_classifier_def beats_model_path_def)
  have lw: "load_model_with_wrapper ?env2 [] (pt_model_path ?u) (pt_icbhi_path ?u) True
      = (Inr (?mo, ?cl), [''/ICBHI_2017''])"
    using body by (simp add: load_model_with_wrapper_def sample_env_def)
  have dv: "to_device ?env2 ?mo = None \<and> to_device ?env2 ?cl = None"
    by (simp add: sample_env_def)
  have un: "pt_model ?u = None"
    by simp
  have eight: "PyTorchAudioInferenceService_load ?env2 [] ?u
      = (None, ?u\<lparr>pt_model_info := Some ?info, pt_model := Some ?mo,
                     pt_classifier := Some ?cl\<rparr>, [''/ICBHI_2017''])"
    using lazy_load_at_most_once [where psvc = ?u and tenv = ?env2 and sp = "[]" and info = ?info
        and mo = ?mo and cl = ?cl and sp' = "[''/ICBHI_2017'']", THEN conjunct2, THEN conjunct2, THEN conjunct2, THEN conjunct2, THEN conjunct2, THEN conjunct2, THEN conjunct2, THEN conjunct2, THEN conjunct2, THEN conjunct2, THEN conjunct2, THEN conjunct1] un gi lw dv
    by blast
  have nine: "snd (PyTorchAudioInferenceService_predict ?env2 [] ?u (Array1 [0]))
      = snd (PyTorchAudioInferenceService_load ?env2 [] ?u)"
    using lazy_load_at_most_once [where psvc = ?u and tenv = ?env2 and sp = "[]" and x = "Array1 [0]", THEN conjunct2, THEN conjunct2, THEN conjunct2, THEN conjunct2, THEN conjunct2, THEN conjunct2, THEN conjunct2, THEN conjunct2, THEN conjunct1]
      un
    by blast
  have ten: "pt_model (fst (snd (PyTorchAudioInferenceService_predict ?env2 [] ?u
      (Array1 [0])))) = Some ?mo"
    unfolding nine eight by simp
  have gf: "get_model_info sample_env (pt_model_path ?u)
      = Inl (Exc FileNotFoundError ''Checkpoint not found: best.pth'')"
    by (simp add: get_model_info_def sample_env_def)
  have eleven: "PyTorchAudioInferenceService_load sample_env [] ?u
      = (Some (load_error ?u (Exc FileNotFoundError ''Checkpoint not found: best.pth'')),
         ?u, [])"
    using lazy_load_at_most_once [where psvc = ?u and tenv = sample_env and sp = "[]"
        and e = "Exc FileNotFoundError ''Checkpoint not found: best.pth''", THEN conjunct2, THEN conjunct2, THEN conjunct2, THEN conjunct2, THEN conjunct2, THEN conjunct2, THEN conjunct2, THEN conjunct2, THEN conjunct2, THEN conjunct1] un gf
    by blast
  have eight': "PyTorchAudioInferenceService_load ?env2 [] ?u
      = (None,
         \<lparr>pt_model_path = ''best.pth'', pt_icbhi_path = Some ''/ICBHI_2017'',
          pt_model = Some ?mo, pt_classifier = Some ?cl, pt_model_info = Some ?info\<rparr>,
         [''/ICBHI_2017''])"
    unfolding eight by simp
  from one two three four five six seven eight' ten eleven show ?thesis
    unfolding a by blast
qed

end
